theory Spec2Isabelle
  imports Main
begin

section \<open>Python strings\<close>

text \<open>
  A Python \<open>str\<close> is modelled as a \<open>string\<close> whose characters are the code points
  U+0000 .. U+00FF, one \<open>char\<close> per code point. The character classes below are those of
  CPython's Unicode database restricted to that range; strings holding code points above
  U+00FF are outside the model.
\<close>

definition code :: "char \<Rightarrow> nat" where
  "code c = of_char c"



text \<open>\<open>s.rstrip("/")\<close>.\<close>

definition rstrip_sep :: "string \<Rightarrow> string" where
  "rstrip_sep s = rev (dropWhile (\<lambda>c. c = CHR ''/'') (rev s))"

definition startswith :: "string \<Rightarrow> string \<Rightarrow> bool" where
  "startswith s pre = (take (length pre) s = pre)"

definition endswith :: "string \<Rightarrow> string \<Rightarrow> bool" where
  "endswith s suf = (length suf \<le> length s \<and> drop (length s - length suf) s = suf)"

text \<open>
  \<open>str.lower\<close>: the upper-case letters of the range are A-Z and U+00C0 .. U+00DE without
  the multiplication sign U+00D7; each has its lower-case form 32 code points above, which
  is the same character with bit 5 set.
\<close>

definition isupper :: "char \<Rightarrow> bool" where
  "isupper c = (let n = code c in
     (65 \<le> n \<and> n \<le> 90) \<or> (192 \<le> n \<and> n \<le> 222 \<and> n \<noteq> 215))"

definition lower_char :: "char \<Rightarrow> char" where
  "lower_char c = (if isupper c
     then (case c of Char b0 b1 b2 b3 b4 b5 b6 b7 \<Rightarrow> Char b0 b1 b2 b3 b4 True b6 b7)
     else c)"

definition lower :: "string \<Rightarrow> string" where
  "lower s = map lower_char s"



text \<open>
  The class \<open>\w\<close> of a \<open>str\<close> pattern (no \<open>re.ASCII\<close> flag): the underscore and every
  character for which \<open>str.isalnum\<close> holds. Below U+0100 these are the ASCII letters and
  digits, the ordinal indicators, the micro sign, the superscript digits, the vulgar
  fractions and the Latin-1 letters.
\<close>

definition is_word_char :: "char \<Rightarrow> bool" where
  "is_word_char c = (let n = code c in
     (48 \<le> n \<and> n \<le> 57) \<or> (65 \<le> n \<and> n \<le> 90) \<or> n = 95 \<or> (97 \<le> n \<and> n \<le> 122) \<or>
     n = 170 \<or> n = 178 \<or> n = 179 \<or> n = 181 \<or> n = 185 \<or> n = 186 \<or>
     n = 188 \<or> n = 189 \<or> n = 190 \<or>
     (192 \<le> n \<and> n \<le> 255 \<and> n \<noteq> 215 \<and> n \<noteq> 247))"

text \<open>\<open>re.sub(r"[^\w\-.]", "-", s)\<close>: the pattern matches one character at a time.\<close>

definition re_sub_unsafe :: "string \<Rightarrow> string" where
  "re_sub_unsafe s =
     map (\<lambda>c. if is_word_char c \<or> c = CHR ''-'' \<or> c = CHR ''.'' then c else CHR ''-'') s"

text \<open>\<open>s.split(sep)\<close> for a one-character separator: never an empty list.\<close>

fun split :: "char \<Rightarrow> string \<Rightarrow> string list" where
  "split sep [] = [[]]"
| "split sep (c # cs) =
     (if c = sep then [] # split sep cs
      else (case split sep cs of
              [] \<Rightarrow> [[c]]
            | w # ws \<Rightarrow> (c # w) # ws))"

text \<open>
  \<open>int(s)\<close> for a \<open>str\<close>: white space around the literal is skipped (below U+0080 the six
  characters of C's \<open>isspace\<close>, above it U+0085 and U+00A0), then an optional sign and
  decimal digits follow, with single underscores allowed between digits. Anything else is
  a \<open>ValueError\<close>, here \<open>None\<close>.
\<close>

definition int_space :: "char \<Rightarrow> bool" where
  "int_space c = (let n = code c in (9 \<le> n \<and> n \<le> 13) \<or> n = 32 \<or> n = 133 \<or> n = 160)"

definition isdigit :: "char \<Rightarrow> bool" where
  "isdigit c = (48 \<le> code c \<and> code c \<le> 57)"

text \<open>The digits of a literal, most significant first; the flag says a digit came last.\<close>

fun digits :: "bool \<Rightarrow> nat \<Rightarrow> string \<Rightarrow> nat option" where
  "digits seen acc [] = (if seen then Some acc else None)"
| "digits seen acc (c # cs) =
     (if isdigit c then digits True (10 * acc + (code c - 48)) cs
      else if c = CHR ''_'' \<and> seen then digits False acc cs
      else None)"

definition py_int :: "string \<Rightarrow> int option" where
  "py_int s =
     (case rev (dropWhile int_space (rev (dropWhile int_space s))) of
        [] \<Rightarrow> None
      | c # cs \<Rightarrow>
          if c = CHR ''-'' then map_option (\<lambda>n. - int n) (digits False 0 cs)
          else if c = CHR ''+'' then map_option int (digits False 0 cs)
          else map_option int (digits False 0 (c # cs)))"

text \<open>Truth value of an \<open>Optional[str]\<close>: \<open>None\<close> and the empty string are false.\<close>

fun truthy :: "string option \<Rightarrow> bool" where
  "truthy None = False"
| "truthy (Some s) = (s \<noteq> [])"

section \<open>posixpath and pathlib\<close>

text \<open>\<open>os.path.join(a, b)\<close>.\<close>

definition path_join :: "string \<Rightarrow> string \<Rightarrow> string" where
  "path_join a b =
     (if startswith b ''/'' then b
      else if a = [] \<or> endswith a ''/'' then a @ b
      else a @ ''/'' @ b)"

text \<open>\<open>sep.join(comps)\<close>.\<close>

fun sep_join :: "string list \<Rightarrow> string" where
  "sep_join [] = []"
| "sep_join [c] = c"
| "sep_join (c # cs) = c @ ''/'' @ sep_join cs"

text \<open>
  The loop of \<open>os.path.normpath\<close>: empty and \<open>.\<close> components are dropped, \<open>..\<close> removes
  the component before it, and is kept where there is none to remove in a relative path
  or where the one before is itself \<open>..\<close>. The components collected so far are held in
  reverse.
\<close>

fun norm_comps :: "bool \<Rightarrow> string list \<Rightarrow> string list \<Rightarrow> string list" where
  "norm_comps initial_slashes new_comps [] = rev new_comps"
| "norm_comps initial_slashes new_comps (x # comps) =
     (if x = [] \<or> x = ''.'' then norm_comps initial_slashes new_comps comps
      else if x \<noteq> ''..'' \<or> (\<not> initial_slashes \<and> new_comps = []) \<or>
              (new_comps \<noteq> [] \<and> hd new_comps = ''..'')
        then norm_comps initial_slashes (x # new_comps) comps
      else if new_comps \<noteq> [] then norm_comps initial_slashes (tl new_comps) comps
      else norm_comps initial_slashes new_comps comps)"

definition normpath :: "string \<Rightarrow> string" where
  "normpath p =
     (if p = [] then ''.''
      else
        let initial_slashes =
              (if \<not> startswith p ''/'' then 0
               else if startswith p ''//'' \<and> \<not> startswith p ''///'' then 2 else (1::nat));
            q = replicate initial_slashes (CHR ''/'') @
                sep_join (norm_comps (initial_slashes \<noteq> 0) [] (split (CHR ''/'') p))
        in if q = [] then ''.'' else q)"

text \<open>\<open>os.path.abspath(p)\<close> in a process whose working directory is \<open>cwd\<close>.\<close>

definition abspath :: "string \<Rightarrow> string \<Rightarrow> string" where
  "abspath cwd p = normpath (if startswith p ''/'' then p else path_join cwd p)"

text \<open>\<open>os.path.commonprefix\<close> of two component lists.\<close>

fun commonprefix :: "string list \<Rightarrow> string list \<Rightarrow> string list" where
  "commonprefix (x # xs) (y # ys) = (if x = y then x # commonprefix xs ys else [])"
| "commonprefix xs ys = []"

text \<open>\<open>os.path.relpath(p, start)\<close>; an empty \<open>p\<close> is a \<open>ValueError\<close>, here \<open>None\<close>.\<close>

definition relpath :: "string \<Rightarrow> string \<Rightarrow> string \<Rightarrow> string option" where
  "relpath cwd p start =
     (if p = [] then None
      else
        let start_list = filter (\<lambda>x. x \<noteq> []) (split (CHR ''/'') (abspath cwd start));
            path_list = filter (\<lambda>x. x \<noteq> []) (split (CHR ''/'') (abspath cwd p));
            i = length (commonprefix start_list path_list);
            rel_list = replicate (length start_list - i) ''..'' @ drop i path_list
        in (case rel_list of
              [] \<Rightarrow> Some ''.''
            | r # rs \<Rightarrow> Some (foldl path_join r rs)))"

text \<open>\<open>os.path.basename(p)\<close>: what follows the last separator.\<close>

definition basename :: "string \<Rightarrow> string" where
  "basename p = rev (takeWhile (\<lambda>c. c \<noteq> CHR ''/'') (rev p))"

text \<open>
  \<open>PurePosixPath(p).name\<close>: the last component of the parsed path, where empty and \<open>.\<close>
  components do not count; empty when there is none.
\<close>

definition path_name :: "string \<Rightarrow> string" where
  "path_name p =
     (case rev (filter (\<lambda>x. x \<noteq> [] \<and> x \<noteq> ''.'') (split (CHR ''/'') p)) of
        [] \<Rightarrow> []
      | n # _ \<Rightarrow> n)"

text \<open>
  \<open>PurePosixPath(p).stem\<close> (pathlib up to Python 3.13): the name without its last
  suffix. With \<open>i\<close> the index of the last dot of the name, the suffix is split off when
  \<open>0 < i < len(name) - 1\<close>. The name is scanned from its end: \<open>ext\<close> is what follows the
  last dot and \<open>front\<close> the dot and what precedes it, both reversed.
\<close>

definition stem :: "string \<Rightarrow> string" where
  "stem p =
     (let name = path_name p;
          ext = takeWhile (\<lambda>c. c \<noteq> CHR ''.'') (rev name);
          front = dropWhile (\<lambda>c. c \<noteq> CHR ''.'') (rev name)
      in if front = [] \<or> tl front = [] \<or> ext = [] then name else rev (tl front))"

text \<open>
  A path component as a directory listing gives it: not empty, neither \<open>.\<close> nor \<open>..\<close>,
  and without a separator.
\<close>

definition clean_component :: "string \<Rightarrow> bool" where
  "clean_component c = (c \<noteq> [] \<and> c \<noteq> ''.'' \<and> c \<noteq> ''..'' \<and> CHR ''/'' \<notin> set c)"

section \<open>Errors\<close>

text \<open>
  The exceptions the code raises, as values. \<open>MalformedDTProject\<close> carries what its
  message names (an empty file, or the missing key); \<open>ValueError\<close> and \<open>KeyError\<close> carry
  their message and key.
\<close>

datatype malformed = EmptyMetadata | MissingKey string

datatype error =
    OSError
  | DTProjectNotFound
  | MalformedDTProject malformed
  | UnsupportedDTProjectVersion
  | RecipeProjectNotFound
  | NotImplementedError
  | ValueError string
  | KeyError string
  | TypeError
  | InvalidArchitecture string
  | UserError

definition getitem :: "(string \<rightharpoonup> 'v) \<Rightarrow> string \<Rightarrow> error + 'v" where
  "getitem d k = (case d k of None \<Rightarrow> Inl (KeyError k) | Some v \<Rightarrow> Inr v)"

section \<open>The file system and the collaborators\<close>

text \<open>
  What the code reads from the operating system, as the answers of one snapshot:
  \<open>os.getcwd\<close>, \<open>os.path.exists\<close>, \<open>os.path.isdir\<close>, \<open>os.path.isfile\<close>, \<open>os.listdir\<close>,
  \<open>os.access(f, os.X_OK)\<close>, the first line and all lines of a text file, and \<open>glob.glob\<close>.
\<close>

record filesystem =
  getcwd :: string
  path_exists :: "string \<Rightarrow> bool"
  path_isdir :: "string \<Rightarrow> bool"
  path_isfile :: "string \<Rightarrow> bool"
  listdir :: "string \<Rightarrow> string list"
  access_X_OK :: "string \<Rightarrow> bool"
  readline :: "string \<Rightarrow> string"
  readlines :: "string \<Rightarrow> string list"
  glob :: "string \<Rightarrow> string list"

text \<open>
  The modules \<open>constants\<close>, \<open>recipe\<close>, \<open>configurations\<close> and \<open>utils.misc\<close> are imported by
  the code and are not part of the sources. Their tables and functions are parameters:
  the template tables map a project type and a template version to a function from the
  project name to a (local, destination) pair; the recipe functions take the repository,
  the branch and the location, and the two that write to the disk return the new file
  system.
\<close>

record constants =
  canonical_architectures :: "string list"
  TEMPLATE_TO_SRC :: "string \<rightharpoonup> (string \<rightharpoonup> (string \<Rightarrow> string \<times> string))"
  TEMPLATE_TO_ASSETS :: "string \<rightharpoonup> (string \<rightharpoonup> (string \<Rightarrow> string \<times> string))"
  REQUIRED_METADATA_KEYS :: "string \<rightharpoonup> string list"
  REQUIRED_METADATA_PER_TYPE_KEYS :: "string \<rightharpoonup> (string \<rightharpoonup> string list)"

record 'c collaborators =
  get_recipe_project_dir :: "string \<Rightarrow> string \<Rightarrow> string \<Rightarrow> string"
  clone_recipe :: "string \<Rightarrow> string \<Rightarrow> string \<Rightarrow> filesystem \<Rightarrow> bool \<times> filesystem"
  update_recipe ::
    "string \<Rightarrow> string \<Rightarrow> string \<Rightarrow> filesystem \<Rightarrow> (error + bool) \<times> filesystem"
  parse_configurations :: "filesystem \<Rightarrow> string \<Rightarrow> error + (string \<rightharpoonup> 'c)"

text \<open>
  Modelled from the spec: \<open>assert_canonical_arch\<close> of \<open>utils.misc\<close> is not in the sources.
  The spec has the architecture "validated against a fixed canonical-architecture set",
  an invalid one being "a fatal input error": the call raises unless the architecture is
  in the set.
\<close>

definition assert_canonical_arch :: "constants \<Rightarrow> string \<Rightarrow> error + unit" where
  "assert_canonical_arch K arch =
     (if arch \<in> set (canonical_architectures K) then Inr () else Inl (InvalidArchitecture arch))"

section \<open>The project\<close>

text \<open>The namespace \<open>DTProject.__init__\<close> builds from the repository information.\<close>

record repository =
  repo_name :: "string option"
  repo_sha :: string
  repo_detached :: bool
  repo_branch :: string
  repo_head_version :: string
  repo_closest_version :: string
  repo_repository_url :: string
  repo_repository_page :: "string option"
  repo_index_nmodified :: nat
  repo_index_nadded :: nat

record maintainer =
  maintainer_name :: string
  maintainer_email :: string
  maintainer_organization :: "string option"

record layer_self =
  self_name :: string
  self_maintainer :: maintainer
  self_description :: string
  self_icon :: string
  self_version :: string

record layer_template =
  template_name :: string
  template_version :: string
  template_provider :: "string option"

record layer_distro =
  distro_name :: string

record layer_base =
  base_repository :: string
  base_registry :: "string option"
  base_organization :: "string option"
  base_tag :: "string option"

text \<open>The four required layers; the free-form custom layers are read by no operation here.\<close>

record layers =
  layers_self :: layer_self
  layers_template :: layer_template
  layers_distro :: layer_distro
  layers_base :: layer_base

text \<open>
  The class \<open>__init__\<close> commits the object to, with the attributes that class sets:
  \<open>_project_info\<close>, \<open>_type\<close>, \<open>_type_version\<close> and \<open>_version\<close> for \<open>DTProjectV1to3\<close>, \<open>_layers\<close>
  for \<open>DTProjectV4\<close>. A directory that neither class accepts leaves an object of the base
  class, whose abstract properties return nothing; such objects are not modelled.
\<close>

datatype variant =
    DTProjectV1to3 "string \<rightharpoonup> string" string string string
  | DTProjectV4 layers

text \<open>
  The attributes of the base class. \<open>_adapters\<close> is a reference to a list object: its
  address in the store of list objects.
\<close>

record project =
  attr_path :: string
  attr_adapters :: nat
  attr_repository :: "repository option"
  attr_custom_recipe_dir :: "string option"
  attr_recipe_version :: "string option"
  attr_class :: variant

definition path :: "project \<Rightarrow> string" where
  "path p = attr_path p"

text \<open>
  \<open>name\<close>: \<open>DTProjectV4\<close> takes the name of the \<open>self\<close> layer unless it is empty,
  \<open>DTProjectV1to3\<close> takes the value of the key \<open>NAME\<close> when the key is there; the fallback
  of both is the repository name when there is a repository with a non-empty name, and
  the base name of the path otherwise.
\<close>

definition fallback_name :: "project \<Rightarrow> string" where
  "fallback_name p =
     (case attr_repository p of
        None \<Rightarrow> basename (path p)
      | Some r \<Rightarrow>
          (case repo_name r of
             None \<Rightarrow> basename (path p)
           | Some n \<Rightarrow> if n \<noteq> [] then n else basename (path p)))"

definition name :: "project \<Rightarrow> string" where
  "name p =
     (case attr_class p of
        DTProjectV4 l \<Rightarrow>
          lower (if self_name (layers_self l) \<noteq> [] then self_name (layers_self l)
                 else fallback_name p)
      | DTProjectV1to3 info t tv v \<Rightarrow>
          lower (case info ''NAME'' of Some n \<Rightarrow> n | None \<Rightarrow> fallback_name p))"

definition version :: "project \<Rightarrow> string" where
  "version p =
     (case attr_class p of
        DTProjectV4 l \<Rightarrow> self_version (layers_self l)
      | DTProjectV1to3 info t tv v \<Rightarrow> v)"

definition type :: "project \<Rightarrow> string" where
  "type p =
     (case attr_class p of
        DTProjectV4 l \<Rightarrow> template_name (layers_template l)
      | DTProjectV1to3 info t tv v \<Rightarrow> t)"

definition type_version :: "project \<Rightarrow> string" where
  "type_version p =
     (case attr_class p of
        DTProjectV4 l \<Rightarrow> template_version (layers_template l)
      | DTProjectV1to3 info t tv v \<Rightarrow> tv)"

definition distro :: "project \<Rightarrow> string" where
  "distro p =
     (case attr_class p of
        DTProjectV4 l \<Rightarrow> distro_name (layers_distro l)
      | DTProjectV1to3 info t tv v \<Rightarrow>
          (case attr_repository p of
             None \<Rightarrow> ''latest''
           | Some r \<Rightarrow>
               (case split (CHR ''-'') (repo_branch r) of [] \<Rightarrow> [] | b # _ \<Rightarrow> b)))"

text \<open>
  \<open>metadata\<close>: a copy of \<open>_project_info\<close> for \<open>DTProjectV1to3\<close>, a dictionary of four keys
  for \<open>DTProjectV4\<close>.
\<close>

definition metadata :: "project \<Rightarrow> (string \<rightharpoonup> string)" where
  "metadata p =
     (case attr_class p of
        DTProjectV4 l \<Rightarrow>
          [''VERSION'' \<mapsto> version p, ''TYPE'' \<mapsto> type p,
           ''TYPE_VERSION'' \<mapsto> type_version p, ''PATH'' \<mapsto> path p]
      | DTProjectV1to3 info t tv v \<Rightarrow> info)"

definition head_version :: "project \<Rightarrow> string" where
  "head_version p =
     (case attr_repository p of Some r \<Rightarrow> repo_head_version r | None \<Rightarrow> ''latest'')"

definition closest_version :: "project \<Rightarrow> string" where
  "closest_version p =
     (case attr_repository p of Some r \<Rightarrow> repo_closest_version r | None \<Rightarrow> ''latest'')"

definition version_name :: "project \<Rightarrow> string" where
  "version_name p =
     (case attr_repository p of
        Some r \<Rightarrow> if repo_branch r \<noteq> ''HEAD'' then repo_branch r else head_version p
      | None \<Rightarrow> ''latest'')"

definition safe_version_name :: "project \<Rightarrow> string" where
  "safe_version_name p = re_sub_unsafe (version_name p)"

section \<open>The adapter list\<close>

text \<open>
  List objects live in a store, addressed by their position; an object is live when its
  address is below the length of the store. \<open>copy.copy\<close> of a list allocates a new object
  with the same elements (the elements are strings, which are immutable). An in-place
  operation on a list object (\<open>append\<close>, \<open>pop\<close>, \<open>clear\<close>, item assignment, ...) replaces
  the elements at its address by a function of them.
\<close>

type_synonym store = "string list list"

definition copy_copy :: "store \<Rightarrow> nat \<Rightarrow> store \<times> nat" where
  "copy_copy h a = (h @ [h ! a], length h)"

definition mutate :: "store \<Rightarrow> nat \<Rightarrow> (string list \<Rightarrow> string list) \<Rightarrow> store" where
  "mutate h a f = (if a < length h then h[a := f (h ! a)] else h)"

text \<open>
  \<open>adapters\<close> returns a reference to a copy of \<open>_adapters\<close>. A project always refers to a live
  object; \<open>None\<close> stands for a dangling reference, which Python cannot produce.
\<close>

definition adapters :: "store \<Rightarrow> project \<Rightarrow> (store \<times> nat) option" where
  "adapters h p =
     (if attr_adapters p < length h then Some (copy_copy h (attr_adapters p)) else None)"

section \<open>The recipe\<close>

definition needs_recipe :: "project \<Rightarrow> bool" where
  "needs_recipe p = (type p = ''template-exercise'')"

text \<open>
  The three arguments the code passes to \<open>get_recipe_project_dir\<close>, \<open>clone_recipe\<close> and
  \<open>update_recipe\<close>, evaluated left to right: \<open>metadata["RECIPE_REPOSITORY"]\<close>, then
  \<open>_recipe_version or metadata["RECIPE_BRANCH"]\<close>, then \<open>metadata["RECIPE_LOCATION"]\<close>. The
  first missing key raises \<open>KeyError\<close>.
\<close>

definition recipe_arguments :: "project \<Rightarrow> error + (string \<times> string \<times> string)" where
  "recipe_arguments p =
     (case getitem (metadata p) ''RECIPE_REPOSITORY'' of
        Inl e \<Rightarrow> Inl e
      | Inr repo \<Rightarrow>
          (case (case attr_recipe_version p of
                   Some v \<Rightarrow> if v \<noteq> [] then Inr v else getitem (metadata p) ''RECIPE_BRANCH''
                 | None \<Rightarrow> getitem (metadata p) ''RECIPE_BRANCH'') of
             Inl e \<Rightarrow> Inl e
           | Inr branch \<Rightarrow>
               (case getitem (metadata p) ''RECIPE_LOCATION'' of
                  Inl e \<Rightarrow> Inl e
                | Inr location \<Rightarrow> Inr (repo, branch, location))))"

definition recipe_dir :: "'c collaborators \<Rightarrow> project \<Rightarrow> error + string option" where
  "recipe_dir C p =
     (if \<not> needs_recipe p then Inr None
      else if truthy (attr_custom_recipe_dir p) then Inr (attr_custom_recipe_dir p)
      else (case recipe_arguments p of
              Inl e \<Rightarrow> Inl e
            | Inr (repo, branch, location) \<Rightarrow>
                Inr (Some (get_recipe_project_dir C repo branch location))))"

definition set_recipe_dir :: "project \<Rightarrow> string \<Rightarrow> project" where
  "set_recipe_dir p d = p\<lparr>attr_custom_recipe_dir := Some d\<rparr>"

definition set_recipe_version :: "project \<Rightarrow> string \<Rightarrow> project" where
  "set_recipe_version p branch = p\<lparr>attr_recipe_version := Some branch\<rparr>"

text \<open>
  \<open>ensure_recipe_exists\<close>: the result and the file system the call leaves. The second
  test of \<open>os.path.exists(self.recipe_dir)\<close> reads the file system the clone left; where
  the clone was not needed, it repeats the first test. A project that needs a recipe has
  a recipe directory, so the \<open>TypeError\<close> of \<open>os.path.exists(None)\<close> is never raised.
\<close>

definition ensure_recipe_exists ::
  "'c collaborators \<Rightarrow> filesystem \<Rightarrow> project \<Rightarrow> (error + unit) \<times> filesystem" where
  "ensure_recipe_exists C fs p =
     (if \<not> needs_recipe p then (Inr (), fs)
      else
        (case recipe_dir C p of
           Inl e \<Rightarrow> (Inl e, fs)
         | Inr None \<Rightarrow> (Inl TypeError, fs)
         | Inr (Some d) \<Rightarrow>
             if \<not> path_exists fs d then
               (case recipe_arguments p of
                  Inl e \<Rightarrow> (Inl e, fs)
                | Inr (repo, branch, location) \<Rightarrow>
                    (case clone_recipe C repo branch location fs of
                       (cloned, fs') \<Rightarrow>
                         if \<not> cloned then (Inl RecipeProjectNotFound, fs')
                         else if \<not> path_exists fs' d then (Inl RecipeProjectNotFound, fs')
                         else (Inr (), fs')))
             else (Inr (), fs)))"

definition update_cached_recipe ::
  "'c collaborators \<Rightarrow> filesystem \<Rightarrow> project \<Rightarrow> (error + bool) \<times> filesystem" where
  "update_cached_recipe C fs p =
     (if needs_recipe p \<and> \<not> truthy (attr_custom_recipe_dir p) then
        (case recipe_arguments p of
           Inl e \<Rightarrow> (Inl e, fs)
         | Inr (repo, branch, location) \<Rightarrow> update_recipe C repo branch location fs)
      else (Inr False, fs))"

definition ensure_recipe_updated ::
  "'c collaborators \<Rightarrow> filesystem \<Rightarrow> project \<Rightarrow> (error + bool) \<times> filesystem" where
  "ensure_recipe_updated C fs p = update_cached_recipe C fs p"

section \<open>Launchers and configurations\<close>

definition has_shebang :: "filesystem \<Rightarrow> string \<Rightarrow> bool" where
  "has_shebang fs f = startswith (readline fs f) ''#!''"

text \<open>
  The loop of \<open>launchers\<close> over the roots: a root without a \<open>launchers\<close> directory is
  skipped, and every other root assigns the variable \<open>launchers\<close> anew.
\<close>

fun launchers_loop :: "filesystem \<Rightarrow> string list \<Rightarrow> string list \<Rightarrow> string list" where
  "launchers_loop fs launchers [] = launchers"
| "launchers_loop fs launchers (root # roots) =
     (let launchers_dir = path_join root ''launchers''
      in if \<not> path_exists fs launchers_dir then launchers_loop fs launchers roots
         else
           let files = map (\<lambda>f. path_join launchers_dir f)
                         (filter (\<lambda>f. path_isfile fs (path_join launchers_dir f))
                            (listdir fs launchers_dir))
           in launchers_loop fs
                (map stem (filter (\<lambda>f. access_X_OK fs f \<or> has_shebang fs f) files)) roots)"

text \<open>
  \<open>self.recipe.path\<close>: the recipe project is built from \<open>recipe_dir\<close>, and its path is the
  absolute form of that directory.
\<close>

definition recipe_path :: "'c collaborators \<Rightarrow> filesystem \<Rightarrow> project \<Rightarrow> error + string" where
  "recipe_path C fs p =
     (case recipe_dir C p of
        Inl e \<Rightarrow> Inl e
      | Inr None \<Rightarrow> Inl TypeError
      | Inr (Some d) \<Rightarrow> Inr (abspath (getcwd fs) d))"

definition launchers :: "'c collaborators \<Rightarrow> filesystem \<Rightarrow> project \<Rightarrow> error + string list" where
  "launchers C fs p =
     (let project_template_ver = (case py_int (type_version p) of None \<Rightarrow> - 1 | Some n \<Rightarrow> n)
      in if project_template_ver < 2 then Inl NotImplementedError
         else if needs_recipe p then
           (case recipe_path C fs p of
              Inl e \<Rightarrow> Inl e
            | Inr r \<Rightarrow> Inr (launchers_loop fs [] [path p, r]))
         else Inr (launchers_loop fs [] [path p]))"

definition configurations ::
  "'c collaborators \<Rightarrow> filesystem \<Rightarrow> project \<Rightarrow> error + (string \<rightharpoonup> 'c)" where
  "configurations C fs p =
     (case py_int (type_version p) of
        None \<Rightarrow> Inl (ValueError ''invalid literal for int()'')
      | Some n \<Rightarrow>
          if n < 2 then Inl NotImplementedError
          else if type_version p = ''2'' then
            (let configurations_file = path_join (attr_path p) ''configurations.yaml''
             in if path_isfile fs configurations_file
                then parse_configurations C fs configurations_file
                else Inr Map.empty)
          else Inr Map.empty)"

section \<open>Image names\<close>

definition is_clean :: "project \<Rightarrow> bool" where
  "is_clean p =
     (case attr_repository p of
        Some r \<Rightarrow> repo_index_nmodified r + repo_index_nadded r = 0
      | None \<Rightarrow> True)"

definition is_release :: "project \<Rightarrow> bool" where
  "is_release p =
     (if \<not> is_clean p then False
      else if attr_repository p \<noteq> None \<and> head_version p \<noteq> ''ND'' then True
      else False)"

definition is_dirty :: "project \<Rightarrow> bool" where
  "is_dirty p = (\<not> is_clean p)"

definition is_detached :: "project \<Rightarrow> bool" where
  "is_detached p = (case attr_repository p of Some r \<Rightarrow> repo_detached r | None \<Rightarrow> False)"

text \<open>
  \<open>image\<close>: the keyword arguments in the order of the signature. An \<open>extra\<close> that is \<open>None\<close>
  or empty adds nothing; a \<open>version\<close> that is \<open>None\<close> is replaced by \<open>safe_version_name\<close>.
\<close>

definition image_tag ::
  "constants \<Rightarrow> project \<Rightarrow> string \<Rightarrow> string \<Rightarrow> string \<Rightarrow> string option \<Rightarrow> bool \<Rightarrow> bool \<Rightarrow>
   string option \<Rightarrow> error + string" where
  "image_tag K p arch registry owner ver loop docs extra =
     (case assert_canonical_arch K arch of
        Inl e \<Rightarrow> Inl e
      | Inr _ \<Rightarrow>
          (let loop' = (if loop then ''-LOOP'' else []);
               docs' = (if docs then ''-docs'' else []);
               extra' = (case extra of
                           Some x \<Rightarrow> if x \<noteq> [] then ''-'' @ x else []
                         | None \<Rightarrow> []);
               version' = (case ver of None \<Rightarrow> safe_version_name p | Some v \<Rightarrow> v)
           in Inr (registry @ ''/'' @ owner @ ''/'' @ name p @ '':'' @ version' @ extra' @
                   loop' @ docs' @ ''-'' @ arch)))"

definition image_vscode ::
  "constants \<Rightarrow> project \<Rightarrow> string \<Rightarrow> string \<Rightarrow> string \<Rightarrow> string option \<Rightarrow> bool \<Rightarrow>
   error + string" where
  "image_vscode K p arch registry owner ver docs =
     image_tag K p arch registry owner ver False docs (Some ''vscode'')"

definition image_vnc ::
  "constants \<Rightarrow> project \<Rightarrow> string \<Rightarrow> string \<Rightarrow> string \<Rightarrow> string option \<Rightarrow> bool \<Rightarrow>
   error + string" where
  "image_vnc K p arch registry owner ver docs =
     image_tag K p arch registry owner ver False docs (Some ''vnc'')"

definition image_release ::
  "constants \<Rightarrow> project \<Rightarrow> string \<Rightarrow> string \<Rightarrow> string \<Rightarrow> bool \<Rightarrow> error + string" where
  "image_release K p arch owner registry docs =
     (if \<not> is_release p
      then Inl (ValueError ''The project repository is not in a release state'')
      else
        (case assert_canonical_arch K arch of
           Inl e \<Rightarrow> Inl e
         | Inr _ \<Rightarrow>
             (let docs' = (if docs then ''-docs'' else []);
                  version' = re_sub_unsafe (head_version p)
              in Inr (registry @ ''/'' @ owner @ ''/'' @ name p @ '':'' @ version' @ docs' @
                      ''-'' @ arch))))"

definition manifest :: "project \<Rightarrow> string \<Rightarrow> string \<Rightarrow> string option \<Rightarrow> string" where
  "manifest p registry owner ver =
     (let version' = (case ver of
                        None \<Rightarrow> re_sub_unsafe (version_name p)
                      | Some v \<Rightarrow> v)
      in registry @ ''/'' @ owner @ ''/'' @ name p @ '':'' @ version')"

section \<open>Code and assets paths\<close>

text \<open>
  The list comprehension over \<open>os.path.relpath\<close>: the first match on which \<open>relpath\<close>
  raises ends it.
\<close>

fun rewrite_prefix :: "string \<Rightarrow> string \<Rightarrow> string \<Rightarrow> string list \<Rightarrow> error + string list" where
  "rewrite_prefix cwd root start [] = Inr []"
| "rewrite_prefix cwd root start (loc # locs) =
     (case relpath cwd loc start of
        None \<Rightarrow> Inl (ValueError ''no path specified'')
      | Some rel \<Rightarrow>
          (case rewrite_prefix cwd root start locs of
             Inl e \<Rightarrow> Inl e
           | Inr rest \<Rightarrow> Inr (path_join root rel # rest)))"

text \<open>
  The bodies of \<open>code_paths\<close> and \<open>assets_paths\<close> are the same but for the table they read
  (\<open>TEMPLATE_TO_SRC\<close>, \<open>TEMPLATE_TO_ASSETS\<close>); \<open>template_paths\<close> is that body, with the table
  as its first argument. An override root that is \<open>None\<close> or empty gives way to the
  project path.
\<close>

definition effective_root :: "filesystem \<Rightarrow> project \<Rightarrow> string option \<Rightarrow> string" where
  "effective_root fs p root =
     rstrip_sep (abspath (getcwd fs)
       (case root of
          Some r \<Rightarrow> if r \<noteq> [] then r else path p
        | None \<Rightarrow> path p))"

definition template_paths ::
  "(string \<rightharpoonup> (string \<rightharpoonup> (string \<Rightarrow> string \<times> string))) \<Rightarrow> filesystem \<Rightarrow> project \<Rightarrow>
   string option \<Rightarrow> error + (string list \<times> string list)" where
  "template_paths table fs p root =
     (case table (type p) of
        None \<Rightarrow> Inl UnsupportedDTProjectVersion
      | Some versions \<Rightarrow>
          (case versions (type_version p) of
             None \<Rightarrow> Inl UnsupportedDTProjectVersion
           | Some entry \<Rightarrow>
               (let root' = effective_root fs p root;
                    (local, destination) = entry (name p)
                in if endswith local ''*'' then
                     (let local_abs = path_join (path p) local;
                          matches = glob fs local_abs;
                          dirs = filter (path_isdir fs) matches
                      in (case rewrite_prefix (getcwd fs) root' (path p) dirs of
                            Inl e \<Rightarrow> Inl e
                          | Inr locals \<Rightarrow>
                              Inr (locals,
                                   map (\<lambda>loc. path_join destination (stem loc)) locals)))
                   else Inr ([path_join root' local], [destination]))))"

definition code_paths ::
  "constants \<Rightarrow> filesystem \<Rightarrow> project \<Rightarrow> string option \<Rightarrow>
   error + (string list \<times> string list)" where
  "code_paths K fs p root = template_paths (TEMPLATE_TO_SRC K) fs p root"

definition assets_paths ::
  "constants \<Rightarrow> filesystem \<Rightarrow> project \<Rightarrow> string option \<Rightarrow>
   error + (string list \<times> string list)" where
  "assets_paths K fs p root = template_paths (TEMPLATE_TO_ASSETS K) fs p root"

section \<open>The legacy descriptor\<close>







section \<open>The spec's reading of two operations\<close>

text \<open>
  The spec describes the sanitised version as the head tag "with every character outside
  \<open>[A-Za-z0-9_.-]\<close> replaced by \<open>-\<close>", and the destination of a matched directory as the
  fixed destination with "the match's final path segment" appended. These two definitions
  follow those words, to be compared with \<open>re_sub_unsafe\<close> and \<open>stem\<close> of the code.
\<close>

definition spec_safe_char :: "char \<Rightarrow> bool" where
  "spec_safe_char c = (let n = code c in
     (65 \<le> n \<and> n \<le> 90) \<or> (97 \<le> n \<and> n \<le> 122) \<or> (48 \<le> n \<and> n \<le> 57) \<or>
     c = CHR ''_'' \<or> c = CHR ''.'' \<or> c = CHR ''-'')"

definition spec_sanitize :: "string \<Rightarrow> string" where
  "spec_sanitize s = map (\<lambda>c. if spec_safe_char c then c else CHR ''-'') s"

definition spec_destination :: "string \<Rightarrow> string \<Rightarrow> string" where
  "spec_destination destination loc = path_join destination (path_name loc)"

section \<open>Example projects\<close>

text \<open>
  A file system, tables, collaborators and projects on which the operations are
  evaluated. The tables have the shape the code expects of the module \<open>constants\<close>.
\<close>

definition ex_constants :: constants where
  "ex_constants = \<lparr>
     canonical_architectures = [''arm32v7'', ''amd64'', ''arm64v8''],
     TEMPLATE_TO_SRC =
       [''template-ros'' \<mapsto> [''3'' \<mapsto> (\<lambda>repo. (''packages/*'', ''/code/src/'' @ repo))],
        ''template-basic'' \<mapsto> [''3'' \<mapsto> (\<lambda>repo. (''packages'', ''/code/'' @ repo))]],
     TEMPLATE_TO_ASSETS =
       [''template-ros'' \<mapsto> [''3'' \<mapsto> (\<lambda>repo. (''assets/*'', ''/data/'' @ repo))],
        ''template-basic'' \<mapsto> [''3'' \<mapsto> (\<lambda>repo. (''assets'', ''/data/'' @ repo))]],
     REQUIRED_METADATA_KEYS =
       [''*'' \<mapsto> [''TYPE_VERSION''],
        ''2'' \<mapsto> [''TYPE'', ''VERSION''],
        ''3'' \<mapsto> [''TYPE'', ''VERSION'']],
     REQUIRED_METADATA_PER_TYPE_KEYS =
       [''template-exercise'' \<mapsto>
          [''3'' \<mapsto> [''NAME'', ''RECIPE_REPOSITORY'', ''RECIPE_BRANCH'', ''RECIPE_LOCATION'']]]
   \<rparr>"

definition ex_files :: "string \<Rightarrow> string list" where
  "ex_files f =
     (if f = ''/ws/unsupported/.dtproject''
        then [''# a descriptor'' @ [CHR 0x0A], ''type = template-ros'' @ [CHR 0x0A],
              ''TYPE_VERSION=7'' @ [CHR 0x0A]]
      else if f = ''/ws/wildcard/.dtproject''
        then [''TYPE_VERSION=*'' @ [CHR 0x0A]]
      else if f = ''/ws/noversion/.dtproject''
        then [''TYPE=template-ros'' @ [CHR 0x0A]]
      else if f = ''/ws/notype/.dtproject''
        then [''TYPE_VERSION=3'' @ [CHR 0x0A], ''VERSION=1.0'' @ [CHR 0x0A]]
      else if f = ''/ws/norecipe/.dtproject''
        then [''TYPE_VERSION=3'' @ [CHR 0x0A], ''TYPE=template-exercise'' @ [CHR 0x0A],
              ''VERSION=1.0'' @ [CHR 0x0A], ''NAME=ex'' @ [CHR 0x0A]]
      else if f = ''/ws/badline/.dtproject''
        then [''TYPE_VERSION=9'' @ [CHR 0x0A], ''template-ros'' @ [CHR 0x0A]]
      else if f = ''/ws/url/.dtproject''
        then [''TYPE_VERSION=9'' @ [CHR 0x0A], ''URL=http://host/?a=b'' @ [CHR 0x0A]]
      else if f = ''/ws/legacy/.dtproject''
        then [''TYPE_VERSION=3'' @ [CHR 0x0A], ''TYPE=template-ros'' @ [CHR 0x0A],
              [CHR 0x0A], ''VERSION=1.0'' @ [CHR 0x0A]]
      else [])"

definition ex_fs :: filesystem where
  "ex_fs = \<lparr>
     getcwd = ''/home/user'',
     path_exists = (\<lambda>f. f \<in> set [''/ws/proj'', ''/ws/proj/launchers'',
        ''/ws/exercise'', ''/ws/exercise/launchers'',
        ''/cache/recipes/main/x'', ''/cache/recipes/main/x/launchers'',
        ''/ws/unsupported'', ''/ws/unsupported/.dtproject'',
        ''/ws/wildcard'', ''/ws/wildcard/.dtproject'',
        ''/ws/noversion'', ''/ws/noversion/.dtproject'',
        ''/ws/notype'', ''/ws/notype/.dtproject'',
        ''/ws/norecipe'', ''/ws/norecipe/.dtproject'',
        ''/ws/badline'', ''/ws/badline/.dtproject'',
        ''/ws/url'', ''/ws/url/.dtproject'',
        ''/ws/legacy'', ''/ws/legacy/.dtproject'']),
     path_isdir = (\<lambda>f. f \<in> set [''/ws/proj/packages/core'', ''/ws/proj/packages/my.pkg'']),
     path_isfile = (\<lambda>f. f \<in> set [''/ws/proj/configurations.yaml'',
        ''/ws/exercise/launchers/default.sh'',
        ''/cache/recipes/main/x/launchers/run.sh'']),
     listdir = (\<lambda>d. if d = ''/ws/exercise/launchers'' then [''default.sh'']
                     else if d = ''/cache/recipes/main/x/launchers'' then [''run.sh'']
                     else []),
     access_X_OK = (\<lambda>f. f = ''/ws/exercise/launchers/default.sh''),
     readline = (\<lambda>f. if f = ''/cache/recipes/main/x/launchers/run.sh''
                      then ''#!/bin/bash'' @ [CHR 0x0A] else []),
     readlines = ex_files,
     glob = (\<lambda>pattern. if pattern = ''/ws/proj/packages/*''
                        then [''/ws/proj/packages/core'', ''/ws/proj/packages/README.md'',
                              ''/ws/proj/packages/my.pkg'']
                        else [])
   \<rparr>"

definition ex_collaborators :: "unit collaborators" where
  "ex_collaborators = \<lparr>
     get_recipe_project_dir = (\<lambda>repo branch location.
        ''/cache/'' @ repo @ ''/'' @ branch @ ''/'' @ location),
     clone_recipe = (\<lambda>repo branch location fs. (True, fs)),
     update_recipe = (\<lambda>repo branch location fs. (Inr True, fs)),
     parse_configurations = (\<lambda>fs f. Inr [''default'' \<mapsto> ()])
   \<rparr>"

definition ex_repository :: repository where
  "ex_repository = \<lparr>
     repo_name = Some ''Foo-Repo'',
     repo_sha = ''0123abc'',
     repo_detached = False,
     repo_branch = ''ente'',
     repo_head_version = ''v1.2.3!'',
     repo_closest_version = ''v1.2.3!'',
     repo_repository_url = ''https://example.org/Foo-Repo'',
     repo_repository_page = None,
     repo_index_nmodified = 0,
     repo_index_nadded = 0
   \<rparr>"

definition ex_layers :: layers where
  "ex_layers = \<lparr>
     layers_self = \<lparr>
       self_name = ''Foo'',
       self_maintainer = \<lparr>maintainer_name = ''A'', maintainer_email = ''a@example.org'',
                           maintainer_organization = None\<rparr>,
       self_description = ''An example'',
       self_icon = ''cube'',
       self_version = ''1.0''\<rparr>,
     layers_template = \<lparr>template_name = ''template-ros'', template_version = ''3'',
                         template_provider = Some ''github.com''\<rparr>,
     layers_distro = \<lparr>distro_name = ''ente''\<rparr>,
     layers_base = \<lparr>base_repository = ''base'', base_registry = None,
                     base_organization = None, base_tag = None\<rparr>
   \<rparr>"

text \<open>A layered project named \<open>foo\<close>, clean and tagged \<open>v1.2.3!\<close> at its head.\<close>

definition ex_project :: project where
  "ex_project = \<lparr>
     attr_path = ''/ws/proj'',
     attr_adapters = 0,
     attr_repository = Some ex_repository,
     attr_custom_recipe_dir = None,
     attr_recipe_version = None,
     attr_class = DTProjectV4 ex_layers
   \<rparr>"

text \<open>The same project with a head tag that holds the letter U+00E9.\<close>

definition ex_project_latin :: project where
  "ex_project_latin =
     ex_project\<lparr>attr_repository :=
       Some (ex_repository\<lparr>repo_head_version := [CHR ''v'', CHR 0xE9]\<rparr>)\<rparr>"

text \<open>The same project with uncommitted changes, and with no tag at its head.\<close>

definition ex_project_dirty :: project where
  "ex_project_dirty =
     ex_project\<lparr>attr_repository := Some (ex_repository\<lparr>repo_index_nmodified := 2\<rparr>)\<rparr>"

definition ex_project_untagged :: project where
  "ex_project_untagged =
     ex_project\<lparr>attr_repository := Some (ex_repository\<lparr>repo_head_version := ''ND''\<rparr>)\<rparr>"

text \<open>The same project with another template type and version.\<close>

definition ex_templated :: "string \<Rightarrow> string \<Rightarrow> project" where
  "ex_templated t tv =
     ex_project\<lparr>attr_class := DTProjectV4 (ex_layers\<lparr>layers_template :=
       \<lparr>template_name = t, template_version = tv,
        template_provider = Some ''github.com''\<rparr>\<rparr>)\<rparr>"

text \<open>A layered exercise, which needs a recipe.\<close>

definition ex_layered_exercise :: project where
  "ex_layered_exercise = (ex_templated ''template-exercise'' ''3'')\<lparr>attr_path := ''/ws/layered''\<rparr>"

text \<open>A legacy exercise whose descriptor names its recipe, outside version control.\<close>

definition ex_exercise_info :: "string \<rightharpoonup> string" where
  "ex_exercise_info =
     [''TYPE'' \<mapsto> ''template-exercise'', ''TYPE_VERSION'' \<mapsto> ''3'', ''VERSION'' \<mapsto> ''1.0'',
      ''NAME'' \<mapsto> ''Ex-One'', ''RECIPE_REPOSITORY'' \<mapsto> ''recipes'',
      ''RECIPE_BRANCH'' \<mapsto> ''main'', ''RECIPE_LOCATION'' \<mapsto> ''x'',
      ''PATH'' \<mapsto> ''/ws/exercise'']"

definition ex_exercise :: project where
  "ex_exercise = \<lparr>
     attr_path = ''/ws/exercise'',
     attr_adapters = 0,
     attr_repository = None,
     attr_custom_recipe_dir = None,
     attr_recipe_version = None,
     attr_class = DTProjectV1to3 ex_exercise_info ''template-exercise'' ''3'' ''1.0''
   \<rparr>"

text \<open>A legacy project that declares no name, in a repository and outside one.\<close>

definition ex_legacy_info :: "string \<rightharpoonup> string" where
  "ex_legacy_info =
     [''TYPE'' \<mapsto> ''template-ros'', ''TYPE_VERSION'' \<mapsto> ''3'', ''VERSION'' \<mapsto> ''1.0'',
      ''PATH'' \<mapsto> ''/ws/Legacy-Dir'']"

definition ex_legacy :: project where
  "ex_legacy = \<lparr>
     attr_path = ''/ws/Legacy-Dir'',
     attr_adapters = 0,
     attr_repository = Some ex_repository,
     attr_custom_recipe_dir = None,
     attr_recipe_version = None,
     attr_class = DTProjectV1to3 ex_legacy_info ''template-ros'' ''3'' ''1.0''
   \<rparr>"

definition ex_legacy_plain :: project where
  "ex_legacy_plain = ex_legacy\<lparr>attr_repository := None\<rparr>"

text \<open>A store in which the adapter list of the example projects is object 0.\<close>

definition ex_store :: store where
  "ex_store = [[''fs'', ''git'', ''dtproject'']]"

section \<open>The metadata view of a layered project\<close>

text \<open>
  C9. For a layered project the metadata view is the dictionary of the four keys
  \<open>VERSION\<close>, \<open>TYPE\<close>, \<open>TYPE_VERSION\<close> and \<open>PATH\<close>, holding the version, the type, the template
  version and the path. So when the type of such a project is \<open>template-exercise\<close> and no
  custom recipe directory is in force, \<open>recipe_dir\<close> raises \<open>KeyError\<close>, on the first key it
  reads, \<open>RECIPE_REPOSITORY\<close>.
\<close>

theorem v4_metadata_recipe_dir:
  assumes "attr_class p = DTProjectV4 l"
  shows "dom (metadata p) = {''VERSION'', ''TYPE'', ''TYPE_VERSION'', ''PATH''} \<and>
         metadata p ''VERSION'' = Some (version p) \<and>
         metadata p ''TYPE'' = Some (type p) \<and>
         metadata p ''TYPE_VERSION'' = Some (type_version p) \<and>
         metadata p ''PATH'' = Some (path p) \<and>
         (type p = ''template-exercise'' \<and> \<not> truthy (attr_custom_recipe_dir p) \<longrightarrow>
            recipe_dir C p = Inl (KeyError ''RECIPE_REPOSITORY''))"
proof -
  have m: "metadata p = [''VERSION'' \<mapsto> version p, ''TYPE'' \<mapsto> type p,
           ''TYPE_VERSION'' \<mapsto> type_version p, ''PATH'' \<mapsto> path p]"
    using assms by (simp add: metadata_def)
  have d: "dom (metadata p) = {''VERSION'', ''TYPE'', ''TYPE_VERSION'', ''PATH''}"
    unfolding m by auto
  have none: "metadata p ''RECIPE_REPOSITORY'' = None"
    unfolding m by simp
  have r: "type p = ''template-exercise'' \<and> \<not> truthy (attr_custom_recipe_dir p) \<longrightarrow>
            recipe_dir C p = Inl (KeyError ''RECIPE_REPOSITORY'')"
    using none by (simp add: recipe_dir_def needs_recipe_def recipe_arguments_def getitem_def)
  show ?thesis using d r unfolding m by simp
qed

theorem v4_metadata_recipe_dir_witness:
  "dom (metadata ex_layered_exercise) = {''VERSION'', ''TYPE'', ''TYPE_VERSION'', ''PATH''} \<and>
   metadata ex_layered_exercise ''TYPE'' = Some ''template-exercise'' \<and>
   metadata ex_layered_exercise ''PATH'' = Some ''/ws/layered'' \<and>
   recipe_dir ex_collaborators ex_layered_exercise = Inl (KeyError ''RECIPE_REPOSITORY'')"
proof -
  have c: "attr_class ex_layered_exercise = DTProjectV4 (ex_layers\<lparr>layers_template :=
         \<lparr>template_name = ''template-exercise'', template_version = ''3'',
          template_provider = Some ''github.com''\<rparr>\<rparr>)"
    by (simp add: ex_layered_exercise_def ex_templated_def)
  have t: "type ex_layered_exercise = ''template-exercise''"
    by (simp add: type_def c)
  have pth: "path ex_layered_exercise = ''/ws/layered''"
    by (simp add: path_def ex_layered_exercise_def)
  have n: "\<not> truthy (attr_custom_recipe_dir ex_layered_exercise)"
    by (simp add: ex_layered_exercise_def ex_templated_def ex_project_def)
  from v4_metadata_recipe_dir[OF c, of ex_collaborators] t n pth show ?thesis by simp
qed

section \<open>Evaluation of the string functions\<close>

lemmas lower_eval = lower_def lower_char_def isupper_def code_def

lemmas int_eval = py_int_def int_space_def isdigit_def code_def



lemmas join_eval = path_join_def startswith_def endswith_def

lemma lower_char_not_upper: "\<not> isupper (lower_char c)"
  by (cases c) (simp add: lower_char_def isupper_def code_def)

lemma lower_no_upper: "\<forall>c \<in> set (lower s). \<not> isupper c"
  by (simp add: lower_def lower_char_not_upper)

lemma lower_idem: "lower (lower s) = lower s"
  by (simp add: lower_def lower_char_def lower_char_not_upper[unfolded lower_char_def])

lemma ex_project_name: "name ex_project = ''foo''"
  by (simp add: name_def ex_project_def ex_layers_def lower_eval)

section \<open>Image tags\<close>

text \<open>
  C3. For a canonical architecture \<open>image\<close> returns
  \<open>registry/owner/name:version[-extra][-LOOP][-docs]-arch\<close>, where a \<open>version\<close> that is not given
  is the safe version name and an \<open>extra\<close> that is not given or empty adds nothing. On a
  project named \<open>foo\<close>, with \<open>amd64\<close> canonical, \<open>image(arch="amd64", registry="r", owner="o",
  version="v")\<close> is \<open>r/o/foo:v-amd64\<close>, and with \<open>loop\<close> and \<open>docs\<close> it is
  \<open>r/o/foo:v-LOOP-docs-amd64\<close>. For an architecture that is not canonical the call fails
  with the error of the architecture check, and no tag is returned.
\<close>

theorem image_tag_format:
  "(arch \<in> set (canonical_architectures K) \<longrightarrow>
      image_tag K p arch registry owner ver loop docs extra =
        Inr (registry @ ''/'' @ owner @ ''/'' @ name p @ '':'' @
             (case ver of None \<Rightarrow> safe_version_name p | Some v \<Rightarrow> v) @
             (case extra of None \<Rightarrow> [] | Some x \<Rightarrow> if x = [] then [] else ''-'' @ x) @
             (if loop then ''-LOOP'' else []) @ (if docs then ''-docs'' else []) @
             ''-'' @ arch)) \<and>
   (arch \<notin> set (canonical_architectures K) \<longrightarrow>
      image_tag K p arch registry owner ver loop docs extra = Inl (InvalidArchitecture arch)) \<and>
   (name p = ''foo'' \<and> ''amd64'' \<in> set (canonical_architectures K) \<longrightarrow>
      image_tag K p ''amd64'' ''r'' ''o'' (Some ''v'') False False None = Inr ''r/o/foo:v-amd64'' \<and>
      image_tag K p ''amd64'' ''r'' ''o'' (Some ''v'') True True None =
        Inr ''r/o/foo:v-LOOP-docs-amd64'')"
  by (cases extra; cases ver) (simp_all add: image_tag_def assert_canonical_arch_def)

theorem image_tag_format_witness:
  "image_tag ex_constants ex_project ''amd64'' ''r'' ''o'' (Some ''v'') False False None =
     Inr ''r/o/foo:v-amd64'' \<and>
   image_tag ex_constants ex_project ''amd64'' ''r'' ''o'' (Some ''v'') True True None =
     Inr ''r/o/foo:v-LOOP-docs-amd64'' \<and>
   image_tag ex_constants ex_project ''arm64v8'' ''docker.io'' ''duckietown'' (Some ''ente'')
     False True (Some ''vscode'') = Inr ''docker.io/duckietown/foo:ente-vscode-docs-arm64v8'' \<and>
   image_tag ex_constants ex_project ''x86'' ''r'' ''o'' (Some ''v'') False False None =
     Inl (InvalidArchitecture ''x86'')"
proof -
  have a: "''amd64'' \<in> set (canonical_architectures ex_constants)"
    by (simp add: ex_constants_def)
  have b: "''arm64v8'' \<in> set (canonical_architectures ex_constants)"
    by (simp add: ex_constants_def)
  have c: "''x86'' \<notin> set (canonical_architectures ex_constants)"
    by (simp add: ex_constants_def)
  from image_tag_format[of "''amd64''" ex_constants ex_project "''r''" "''o''" "Some ''v''" False False None]
    a ex_project_name
  have 1: "image_tag ex_constants ex_project ''amd64'' ''r'' ''o'' (Some ''v'') False False None =
     Inr ''r/o/foo:v-amd64'' \<and>
   image_tag ex_constants ex_project ''amd64'' ''r'' ''o'' (Some ''v'') True True None =
     Inr ''r/o/foo:v-LOOP-docs-amd64''" by blast
  from image_tag_format[of "''arm64v8''" ex_constants ex_project "''docker.io''" "''duckietown''"
      "Some ''ente''" False True "Some ''vscode''"] b ex_project_name
  have 2: "image_tag ex_constants ex_project ''arm64v8'' ''docker.io'' ''duckietown'' (Some ''ente'')
     False True (Some ''vscode'') = Inr ''docker.io/duckietown/foo:ente-vscode-docs-arm64v8''"
    by simp
  from image_tag_format[of "''x86''" ex_constants ex_project "''r''" "''o''" "Some ''v''" False False None] c
  have 3: "image_tag ex_constants ex_project ''x86'' ''r'' ''o'' (Some ''v'') False False None =
     Inl (InvalidArchitecture ''x86'')" by blast
  from 1 2 3 show ?thesis by blast
qed

section \<open>Configurations\<close>

text \<open>
  The claim C6 has \<open>configurations\<close> raise "not supported" for every template version other
  than \<open>2\<close>. A project of template version \<open>4\<close> gets the empty dictionary instead.
\<close>

theorem configurations_newer_counterexample:
  "configurations ex_collaborators ex_fs (ex_templated ''template-ros'' ''4'') = Inr Map.empty \<and>
   configurations ex_collaborators ex_fs (ex_templated ''template-ros'' ''4'') \<noteq>
     Inl NotImplementedError"
  by (simp add: configurations_def type_version_def ex_templated_def ex_project_def int_eval)

text \<open>
  C6, amended. \<open>configurations\<close> raises \<open>NotImplementedError\<close> when the integer value of the
  template version is below 2; for the template version \<open>2\<close> it parses
  \<open>configurations.yaml\<close> at the project root when that file exists, and returns the empty
  dictionary when it does not; for every other template version whose integer value is at
  least 2 it returns the empty dictionary and raises nothing; a template version that is
  no integer literal is the \<open>ValueError\<close> of \<open>int\<close>.
\<close>

theorem configurations_by_version:
  "(\<forall>n. py_int (type_version p) = Some n \<and> n < 2 \<longrightarrow>
      configurations C fs p = Inl NotImplementedError) \<and>
   (type_version p = ''2'' \<longrightarrow>
      configurations C fs p =
        (if path_isfile fs (path_join (attr_path p) ''configurations.yaml'')
         then parse_configurations C fs (path_join (attr_path p) ''configurations.yaml'')
         else Inr Map.empty)) \<and>
   (\<forall>n. py_int (type_version p) = Some n \<and> 2 \<le> n \<and> type_version p \<noteq> ''2'' \<longrightarrow>
      configurations C fs p = Inr Map.empty) \<and>
   (py_int (type_version p) = None \<longrightarrow>
      configurations C fs p = Inl (ValueError ''invalid literal for int()''))"
proof -
  have two: "py_int ''2'' = Some 2" by (simp add: int_eval)
  show ?thesis by (auto simp add: configurations_def two)
qed

theorem configurations_by_version_witness:
  "configurations ex_collaborators ex_fs (ex_templated ''template-ros'' ''1'') =
     Inl NotImplementedError \<and>
   configurations ex_collaborators ex_fs (ex_templated ''template-ros'' ''2'') =
     Inr [''default'' \<mapsto> ()] \<and>
   configurations ex_collaborators ex_fs (ex_templated ''template-ros'' ''3'') = Inr Map.empty \<and>
   configurations ex_collaborators ex_fs (ex_templated ''template-ros'' ''02'') = Inr Map.empty \<and>
   configurations ex_collaborators ex_fs (ex_templated ''template-ros'' ''two'') =
     Inl (ValueError ''invalid literal for int()'')"
proof -
  have tv: "\<And>t v. type_version (ex_templated t v) = v"
    by (simp add: type_version_def ex_templated_def)
  have pth: "\<And>t v. attr_path (ex_templated t v) = ''/ws/proj''"
    by (simp add: ex_templated_def ex_project_def)
  have i1: "py_int ''1'' = Some 1" by (simp add: int_eval)
  have i3: "py_int ''3'' = Some 3" by (simp add: int_eval)
  have i02: "py_int ''02'' = Some 2" by (simp add: int_eval)
  have itwo: "py_int ''two'' = None" by (simp add: int_eval)
  have f: "path_isfile ex_fs (path_join ''/ws/proj'' ''configurations.yaml'')"
    by (simp add: ex_fs_def path_join_def startswith_def endswith_def)
  have p: "parse_configurations ex_collaborators ex_fs
             (path_join ''/ws/proj'' ''configurations.yaml'') = Inr [''default'' \<mapsto> ()]"
    by (simp add: ex_collaborators_def)
  have 1: "configurations ex_collaborators ex_fs (ex_templated ''template-ros'' ''1'') =
     Inl NotImplementedError"
    using configurations_by_version[of "ex_templated ''template-ros'' ''1''" ex_collaborators ex_fs]
      i1 by (simp add: tv)
  have 2: "configurations ex_collaborators ex_fs (ex_templated ''template-ros'' ''2'') =
     Inr [''default'' \<mapsto> ()]"
    using configurations_by_version[of "ex_templated ''template-ros'' ''2''" ex_collaborators ex_fs]
      f p by (simp add: tv pth)
  have 3: "configurations ex_collaborators ex_fs (ex_templated ''template-ros'' ''3'') =
     Inr Map.empty"
    using configurations_by_version[of "ex_templated ''template-ros'' ''3''" ex_collaborators ex_fs]
      i3 by (simp add: tv)
  have 4: "configurations ex_collaborators ex_fs (ex_templated ''template-ros'' ''02'') =
     Inr Map.empty"
    using configurations_by_version[of "ex_templated ''template-ros'' ''02''" ex_collaborators ex_fs]
      i02 by (simp add: tv)
  have 5: "configurations ex_collaborators ex_fs (ex_templated ''template-ros'' ''two'') =
     Inl (ValueError ''invalid literal for int()'')"
    using configurations_by_version[of "ex_templated ''template-ros'' ''two''" ex_collaborators ex_fs]
      itwo by (simp add: tv)
  from 1 2 3 4 5 show ?thesis by blast
qed

section \<open>The adapters accessor\<close>

text \<open>
  C10. \<open>adapters\<close> returns a copy of the adapter list: the returned reference is not the
  project's own, the two lists have the same elements, whatever is done in place to the
  returned list leaves every object that was live before the call as it was (the
  project's list among them), and a second call returns a list equal to the first.
\<close>

theorem adapters_copy:
  assumes "attr_adapters p < length h" and "adapters h p = Some (h1, r1)"
  shows "r1 \<noteq> attr_adapters p \<and>
         h1 ! r1 = h ! attr_adapters p \<and>
         (\<forall>f a. a < length h \<longrightarrow> mutate h1 r1 f ! a = h ! a) \<and>
         (\<forall>f. mutate h1 r1 f ! r1 = f (h ! attr_adapters p)) \<and>
         (\<exists>h2 r2. adapters h1 p = Some (h2, r2) \<and> r2 \<noteq> r1 \<and> h2 ! r2 = h2 ! r1)"
proof -
  from assms have h1: "h1 = h @ [h ! attr_adapters p]" and r1: "r1 = length h"
    by (simp_all add: adapters_def copy_copy_def)
  have a: "r1 \<noteq> attr_adapters p" using assms(1) r1 by simp
  have b: "h1 ! r1 = h ! attr_adapters p" by (simp add: h1 r1)
  have c: "\<forall>f a. a < length h \<longrightarrow> mutate h1 r1 f ! a = h ! a"
    by (simp add: mutate_def h1 r1 nth_append)
  have d: "\<forall>f. mutate h1 r1 f ! r1 = f (h ! attr_adapters p)"
    by (simp add: mutate_def h1 r1)
  have e: "\<exists>h2 r2. adapters h1 p = Some (h2, r2) \<and> r2 \<noteq> r1 \<and> h2 ! r2 = h2 ! r1"
    using assms(1) by (simp add: adapters_def copy_copy_def h1 r1 nth_append)
  from a b c d e show ?thesis by blast
qed

theorem adapters_copy_witness:
  "adapters ex_store ex_project =
     Some ([[''fs'', ''git'', ''dtproject''], [''fs'', ''git'', ''dtproject'']], 1) \<and>
   mutate [[''fs'', ''git'', ''dtproject''], [''fs'', ''git'', ''dtproject'']] 1
     (\<lambda>xs. xs @ [''mine'']) ! 0 = [''fs'', ''git'', ''dtproject''] \<and>
   mutate [[''fs'', ''git'', ''dtproject''], [''fs'', ''git'', ''dtproject'']] 1
     (\<lambda>xs. xs @ [''mine'']) ! 1 = [''fs'', ''git'', ''dtproject'', ''mine'']"
proof -
  have l: "attr_adapters ex_project < length ex_store"
    by (simp add: ex_project_def ex_store_def)
  have a: "adapters ex_store ex_project =
     Some ([[''fs'', ''git'', ''dtproject''], [''fs'', ''git'', ''dtproject'']], 1)"
    by (simp add: adapters_def copy_copy_def ex_project_def ex_store_def)
  from adapters_copy[OF l a] show ?thesis
    using a by (simp add: ex_project_def ex_store_def)
qed

section \<open>Name resolution\<close>

lemma name_is_lower: "\<exists>s. name p = lower s"
  by (cases "attr_class p") (auto simp add: name_def)

text \<open>
  C7. In both formats the name is the one the descriptor declares (a non-empty name of the
  \<open>self\<close> layer, a \<open>NAME\<close> key of the legacy file); without one it is the repository name
  when there is a repository and it has a non-empty name, and the base name of the
  directory otherwise. The result is lower-cased: it holds no upper-case letter, whatever
  the case of the input.
\<close>

theorem name_precedence:
  "(attr_class p = DTProjectV4 l \<and> self_name (layers_self l) \<noteq> [] \<longrightarrow>
      name p = lower (self_name (layers_self l))) \<and>
   (attr_class p = DTProjectV1to3 info t tv v \<and> info ''NAME'' = Some n \<longrightarrow>
      name p = lower n) \<and>
   ((attr_class p = DTProjectV4 l \<and> self_name (layers_self l) = []) \<or>
    (attr_class p = DTProjectV1to3 info t tv v \<and> info ''NAME'' = None) \<longrightarrow>
      (attr_repository p = Some r \<and> repo_name r = Some rn \<and> rn \<noteq> [] \<longrightarrow>
         name p = lower rn) \<and>
      (attr_repository p = None \<or>
       (attr_repository p = Some r \<and> (repo_name r = None \<or> repo_name r = Some [])) \<longrightarrow>
         name p = lower (basename (path p)))) \<and>
   (\<forall>c \<in> set (name p). \<not> isupper c) \<and>
   lower (name p) = name p"
proof -
  obtain s where s: "name p = lower s" using name_is_lower by blast
  have a: "\<forall>c \<in> set (name p). \<not> isupper c" unfolding s by (rule lower_no_upper)
  have b: "lower (name p) = name p" unfolding s by (rule lower_idem)
  have c: "attr_class p = DTProjectV4 l \<and> self_name (layers_self l) \<noteq> [] \<longrightarrow>
      name p = lower (self_name (layers_self l))"
    by (simp add: name_def)
  have d: "attr_class p = DTProjectV1to3 info t tv v \<and> info ''NAME'' = Some n \<longrightarrow>
      name p = lower n"
    by (simp add: name_def)
  have e: "(attr_class p = DTProjectV4 l \<and> self_name (layers_self l) = []) \<or>
    (attr_class p = DTProjectV1to3 info t tv v \<and> info ''NAME'' = None) \<longrightarrow>
      name p = lower (fallback_name p)"
    by (auto simp add: name_def)
  have f: "attr_repository p = Some r \<and> repo_name r = Some rn \<and> rn \<noteq> [] \<longrightarrow>
         fallback_name p = rn"
    by (simp add: fallback_name_def)
  have g: "attr_repository p = None \<or>
       (attr_repository p = Some r \<and> (repo_name r = None \<or> repo_name r = Some [])) \<longrightarrow>
         fallback_name p = basename (path p)"
    by (auto simp add: fallback_name_def)
  from a b c d e f g show ?thesis by presburger
qed
theorem name_precedence_witness:
  "name ex_project = ''foo'' \<and> name ex_exercise = ''ex-one'' \<and>
   name ex_legacy = ''foo-repo'' \<and> name ex_legacy_plain = ''legacy-dir''"
proof -
  have 1: "name ex_project = ''foo''"
    using name_precedence[of ex_project ex_layers]
    by (simp add: ex_project_def ex_layers_def lower_eval)
  have 2: "name ex_exercise = ''ex-one''"
    using name_precedence[of ex_exercise _ ex_exercise_info "''template-exercise''" "''3''"
        "''1.0''" "''Ex-One''"]
    by (simp add: ex_exercise_def ex_exercise_info_def lower_eval)
  have 3: "name ex_legacy = ''foo-repo''"
    using name_precedence[of ex_legacy _ ex_legacy_info "''template-ros''" "''3''" "''1.0''" _
        ex_repository "''Foo-Repo''"]
    by (simp add: ex_legacy_def ex_legacy_info_def ex_repository_def lower_eval)
  have 4: "name ex_legacy_plain = ''legacy-dir''"
    using name_precedence[of ex_legacy_plain _ ex_legacy_info "''template-ros''" "''3''" "''1.0''"]
    by (simp add: ex_legacy_plain_def ex_legacy_def ex_legacy_info_def path_def basename_def
        lower_eval)
  from 1 2 3 4 show ?thesis by blast
qed

section \<open>Recipe upkeep\<close>

text \<open>
  C8. On a project with a custom recipe directory in force (a non-empty \<open>_custom_recipe_dir\<close>,
  as \<open>set_recipe_dir\<close> leaves it), \<open>update_cached_recipe\<close> and \<open>ensure_recipe_updated\<close> return
  \<open>False\<close> and leave the file system as it was, whatever \<open>update_recipe\<close> would have done.
  \<open>ensure_recipe_exists\<close> raises \<open>RecipeProjectNotFound\<close> when the recipe directory is
  missing, the clone has been delegated, and the directory is still missing afterwards.
\<close>

theorem custom_recipe_never_updated:
  "(truthy (attr_custom_recipe_dir p) \<longrightarrow>
      update_cached_recipe C fs p = (Inr False, fs) \<and>
      ensure_recipe_updated C fs p = (Inr False, fs)) \<and>
   (d \<noteq> [] \<longrightarrow>
      update_cached_recipe C fs (set_recipe_dir p d) = (Inr False, fs) \<and>
      ensure_recipe_updated C fs (set_recipe_dir p d) = (Inr False, fs)) \<and>
   (needs_recipe p \<and> recipe_dir C p = Inr (Some dir) \<and> \<not> path_exists fs dir \<and>
    recipe_arguments p = Inr (repo, branch, location) \<and>
    clone_recipe C repo branch location fs = (cloned, fs') \<and> \<not> path_exists fs' dir \<longrightarrow>
      ensure_recipe_exists C fs p = (Inl RecipeProjectNotFound, fs'))"
  by (simp add: update_cached_recipe_def ensure_recipe_updated_def set_recipe_dir_def
      ensure_recipe_exists_def)

lemma ex_exercise_metadata: "metadata (ex_exercise\<lparr>attr_recipe_version := v\<rparr>) = ex_exercise_info"
  by (simp add: metadata_def ex_exercise_def)

lemma ex_exercise_needs_recipe: "needs_recipe (ex_exercise\<lparr>attr_recipe_version := v\<rparr>)"
  by (simp add: needs_recipe_def type_def ex_exercise_def)

theorem custom_recipe_never_updated_witness:
  "update_cached_recipe ex_collaborators ex_fs ex_exercise = (Inr True, ex_fs) \<and>
   update_cached_recipe ex_collaborators ex_fs (set_recipe_dir ex_exercise ''/ws/my-recipe'') =
     (Inr False, ex_fs) \<and>
   ensure_recipe_updated ex_collaborators ex_fs (set_recipe_dir ex_exercise ''/ws/my-recipe'') =
     (Inr False, ex_fs) \<and>
   ensure_recipe_exists ex_collaborators ex_fs (set_recipe_version ex_exercise ''v2'') =
     (Inl RecipeProjectNotFound, ex_fs)"
proof -
  let ?p = "set_recipe_version ex_exercise ''v2''"
  have args0: "recipe_arguments ex_exercise = Inr (''recipes'', ''main'', ''x'')"
    using ex_exercise_metadata[of None]
    by (simp add: recipe_arguments_def getitem_def ex_exercise_info_def ex_exercise_def)
  have 0: "update_cached_recipe ex_collaborators ex_fs ex_exercise = (Inr True, ex_fs)"
    using ex_exercise_needs_recipe[of None] args0
    by (simp add: update_cached_recipe_def ex_exercise_def ex_collaborators_def)
  have args: "recipe_arguments ?p = Inr (''recipes'', ''v2'', ''x'')"
    using ex_exercise_metadata[of "Some ''v2''"]
    by (simp add: recipe_arguments_def set_recipe_version_def getitem_def ex_exercise_info_def
        ex_exercise_def)
  have need: "needs_recipe ?p"
    using ex_exercise_needs_recipe[of "Some ''v2''"] by (simp add: set_recipe_version_def)
  have dir: "recipe_dir ex_collaborators ?p = Inr (Some ''/cache/recipes/v2/x'')"
    using need args
    by (simp add: recipe_dir_def set_recipe_version_def ex_exercise_def ex_collaborators_def)
  have missing: "\<not> path_exists ex_fs ''/cache/recipes/v2/x''"
    by (simp add: ex_fs_def)
  have clone: "clone_recipe ex_collaborators ''recipes'' ''v2'' ''x'' ex_fs = (True, ex_fs)"
    by (simp add: ex_collaborators_def)
  from custom_recipe_never_updated[where p = ex_exercise and C = ex_collaborators and
      fs = ex_fs and d = "''/ws/my-recipe''"]
  have 1: "update_cached_recipe ex_collaborators ex_fs (set_recipe_dir ex_exercise ''/ws/my-recipe'') =
     (Inr False, ex_fs) \<and>
   ensure_recipe_updated ex_collaborators ex_fs (set_recipe_dir ex_exercise ''/ws/my-recipe'') =
     (Inr False, ex_fs)" by simp
  from custom_recipe_never_updated[where p = ?p and C = ex_collaborators and fs = ex_fs and
      dir = "''/cache/recipes/v2/x''" and repo = "''recipes''" and branch = "''v2''" and
      location = "''x''" and cloned = True and fs' = ex_fs]
  have 2: "ensure_recipe_exists ex_collaborators ex_fs ?p = (Inl RecipeProjectNotFound, ex_fs)"
    using need dir missing args clone by blast
  from 0 1 2 show ?thesis by blast
qed

section \<open>Launchers\<close>

lemma ex_recipe_path:
  "recipe_path ex_collaborators ex_fs ex_exercise = Inr ''/cache/recipes/main/x''"
proof -
  have m: "metadata ex_exercise = ex_exercise_info"
    by (simp add: metadata_def ex_exercise_def)
  have args0: "recipe_arguments ex_exercise = Inr (''recipes'', ''main'', ''x'')"
    using m by (simp add: recipe_arguments_def getitem_def ex_exercise_info_def ex_exercise_def)
  have dir: "recipe_dir ex_collaborators ex_exercise = Inr (Some ''/cache/recipes/main/x'')"
    using args0
    by (simp add: recipe_dir_def needs_recipe_def type_def ex_exercise_def ex_collaborators_def)
  have ab: "abspath ''/home/user'' ''/cache/recipes/main/x'' = ''/cache/recipes/main/x''"
    by (simp add: abspath_def normpath_def startswith_def)
  show ?thesis using dir ab by (simp add: recipe_path_def ex_fs_def)
qed

lemma join_launchers:
  "path_join ''/ws/exercise'' ''launchers'' = ''/ws/exercise/launchers'' \<and>
   path_join ''/cache/recipes/main/x'' ''launchers'' = ''/cache/recipes/main/x/launchers'' \<and>
   path_join ''/ws/exercise/launchers'' ''default.sh'' = ''/ws/exercise/launchers/default.sh'' \<and>
   path_join ''/cache/recipes/main/x/launchers'' ''run.sh'' =
     ''/cache/recipes/main/x/launchers/run.sh''"
  by (simp add: path_join_def startswith_def endswith_def)

lemma stems:
  "stem ''/ws/exercise/launchers/default.sh'' = ''default'' \<and>
   stem ''/cache/recipes/main/x/launchers/run.sh'' = ''run''"
  by (simp add: stem_def path_name_def)

lemma launchers_loop_last_root:
  "path_exists fs (path_join r ''launchers'') \<Longrightarrow>
   launchers_loop fs acc [q, r] = launchers_loop fs [] [r]"
  by (simp add: Let_def)

text \<open>
  C5. The claim has the launchers of the project stay in the result next to those of the
  recipe. The loop assigns the list anew for every root that has a \<open>launchers\<close> directory,
  so the result holds the launchers of the last such root only: on the example exercise,
  whose own launcher is \<open>default\<close> and whose recipe has the launcher \<open>run\<close>, the result is
  \<open>run\<close> alone.
\<close>

theorem launchers_recipe_replaces_project:
  "launchers_loop ex_fs [] [path ex_exercise] = [''default''] \<and>
   launchers_loop ex_fs [] [''/cache/recipes/main/x''] = [''run''] \<and>
   launchers ex_collaborators ex_fs ex_exercise = Inr [''run'']"
proof -
  have pth: "path ex_exercise = ''/ws/exercise''"
    by (simp add: path_def ex_exercise_def)
  have 1: "launchers_loop ex_fs [] [''/ws/exercise''] = [''default'']"
    by (simp add: join_launchers stems ex_fs_def has_shebang_def startswith_def)
  have 2: "launchers_loop ex_fs [] [''/cache/recipes/main/x''] = [''run'']"
    by (simp add: join_launchers stems ex_fs_def has_shebang_def startswith_def)
  have 3: "launchers_loop ex_fs [] [''/ws/exercise'', ''/cache/recipes/main/x''] = [''run'']"
    by (simp add: join_launchers stems ex_fs_def has_shebang_def startswith_def)
  have tv: "py_int (type_version ex_exercise) = Some 3"
    by (simp add: type_version_def ex_exercise_def int_eval)
  have need: "needs_recipe ex_exercise"
    by (simp add: needs_recipe_def type_def ex_exercise_def)
  have 4: "launchers ex_collaborators ex_fs ex_exercise = Inr [''run'']"
    using tv need ex_recipe_path 3 pth by (simp add: launchers_def)
  from 1 2 4 pth show ?thesis by simp
qed

section \<open>Release tags\<close>

lemma ascii_classes_agree:
  "code c < 128 \<Longrightarrow> (is_word_char c \<or> c = CHR ''-'' \<or> c = CHR ''.'') = spec_safe_char c"
  by (cases c) (auto simp add: is_word_char_def spec_safe_char_def code_def)

lemma ascii_sanitize: "\<forall>c \<in> set s. code c < 128 \<Longrightarrow> re_sub_unsafe s = spec_sanitize s"
  by (simp add: re_sub_unsafe_def spec_sanitize_def ascii_classes_agree)

text \<open>
  The claim C4 has every character of the head tag outside \<open>[A-Za-z0-9_.-]\<close> replaced by
  \<open>-\<close>. The pattern of the code keeps what \<open>\w\<close> matches, and for a \<open>str\<close> that is every
  alphanumeric character of Unicode: on a clean project whose head tag is \<open>v\<close> followed by
  the letter U+00E9, the letter stays in the tag, where the claim has \<open>v-\<close>.
\<close>

theorem image_release_latin_counterexample:
  "is_release ex_project_latin \<and>
   image_release ex_constants ex_project_latin ''amd64'' ''o'' ''r'' False =
     Inr (''r/o/foo:'' @ [CHR ''v'', CHR 0xE9] @ ''-amd64'') \<and>
   ''r/o/foo:'' @ spec_sanitize (head_version ex_project_latin) @ ''-amd64'' = ''r/o/foo:v--amd64'' \<and>
   image_release ex_constants ex_project_latin ''amd64'' ''o'' ''r'' False \<noteq>
     Inr (''r/o/foo:'' @ spec_sanitize (head_version ex_project_latin) @ ''-amd64'')"
proof -
  have n: "name ex_project_latin = ''foo''"
    by (simp add: name_def ex_project_latin_def ex_project_def ex_layers_def lower_eval)
  have h: "head_version ex_project_latin = [CHR ''v'', CHR 0xE9]"
    by (simp add: head_version_def ex_project_latin_def ex_project_def)
  have r: "is_release ex_project_latin"
    using h by (simp add: is_release_def is_clean_def ex_project_latin_def ex_project_def
        ex_repository_def)
  have s: "re_sub_unsafe [CHR ''v'', CHR 0xE9] = [CHR ''v'', CHR 0xE9]"
    by (simp add: re_sub_unsafe_def is_word_char_def code_def)
  have s': "spec_sanitize [CHR ''v'', CHR 0xE9] = ''v-''"
    by (simp add: spec_sanitize_def spec_safe_char_def code_def)
  have i: "image_release ex_constants ex_project_latin ''amd64'' ''o'' ''r'' False =
     Inr (''r/o/foo:'' @ [CHR ''v'', CHR 0xE9] @ ''-amd64'')"
    using r n h s by (simp add: image_release_def assert_canonical_arch_def ex_constants_def)
  from r i h s' show ?thesis by simp
qed

text \<open>
  C4, amended. A project is in a release state exactly when it has a repository with no
  modified and no added files and a head tag other than \<open>ND\<close>. \<open>image_release\<close> raises
  the \<open>ValueError\<close> of the release state on every other project, before the architecture is
  looked at. On a project in a release state and a canonical architecture it returns
  \<open>registry/owner/name:version[-docs]-arch\<close>, where \<open>version\<close> is the head tag, of the same
  length, with every character replaced by \<open>-\<close> that is neither \<open>-\<close> nor \<open>.\<close> nor matched
  by \<open>\w\<close>. Below U+0080 the characters kept are those of \<open>[A-Za-z0-9_.-]\<close>, so on a head
  tag of such characters the version is the one the spec describes.
\<close>

theorem image_release_cases:
  "(is_release p \<longleftrightarrow>
      (\<exists>r. attr_repository p = Some r \<and> repo_index_nmodified r + repo_index_nadded r = 0 \<and>
           repo_head_version r \<noteq> ''ND'')) \<and>
   (\<not> is_release p \<longrightarrow>
      image_release K p arch owner registry docs =
        Inl (ValueError ''The project repository is not in a release state'')) \<and>
   (is_release p \<and> arch \<in> set (canonical_architectures K) \<longrightarrow>
      image_release K p arch owner registry docs =
        Inr (registry @ ''/'' @ owner @ ''/'' @ name p @ '':'' @ re_sub_unsafe (head_version p) @
             (if docs then ''-docs'' else []) @ ''-'' @ arch)) \<and>
   length (re_sub_unsafe (head_version p)) = length (head_version p) \<and>
   (\<forall>i < length (head_version p).
      re_sub_unsafe (head_version p) ! i =
        (if is_word_char (head_version p ! i) \<or> head_version p ! i = CHR ''-'' \<or>
            head_version p ! i = CHR ''.''
         then head_version p ! i else CHR ''-'')) \<and>
   (\<forall>c. code c < 128 \<longrightarrow> (is_word_char c \<or> c = CHR ''-'' \<or> c = CHR ''.'') = spec_safe_char c) \<and>
   ((\<forall>c \<in> set (head_version p). code c < 128) \<longrightarrow>
      re_sub_unsafe (head_version p) = spec_sanitize (head_version p))"
proof -
  have a: "is_release p \<longleftrightarrow>
      (\<exists>r. attr_repository p = Some r \<and> repo_index_nmodified r + repo_index_nadded r = 0 \<and>
           repo_head_version r \<noteq> ''ND'')"
    by (cases "attr_repository p") (auto simp add: is_release_def is_clean_def head_version_def)
  have b: "\<not> is_release p \<longrightarrow>
      image_release K p arch owner registry docs =
        Inl (ValueError ''The project repository is not in a release state'')"
    by (simp add: image_release_def)
  have c: "is_release p \<and> arch \<in> set (canonical_architectures K) \<longrightarrow>
      image_release K p arch owner registry docs =
        Inr (registry @ ''/'' @ owner @ ''/'' @ name p @ '':'' @ re_sub_unsafe (head_version p) @
             (if docs then ''-docs'' else []) @ ''-'' @ arch)"
    by (simp add: image_release_def assert_canonical_arch_def)
  have d: "length (re_sub_unsafe (head_version p)) = length (head_version p)"
    by (simp add: re_sub_unsafe_def)
  have e: "\<forall>i < length (head_version p).
      re_sub_unsafe (head_version p) ! i =
        (if is_word_char (head_version p ! i) \<or> head_version p ! i = CHR ''-'' \<or>
            head_version p ! i = CHR ''.''
         then head_version p ! i else CHR ''-'')"
    by (simp add: re_sub_unsafe_def)
  have f: "\<forall>c. code c < 128 \<longrightarrow>
             (is_word_char c \<or> c = CHR ''-'' \<or> c = CHR ''.'') = spec_safe_char c"
    using ascii_classes_agree by blast
  have g: "(\<forall>c \<in> set (head_version p). code c < 128) \<longrightarrow>
      re_sub_unsafe (head_version p) = spec_sanitize (head_version p)"
    using ascii_sanitize by blast
  from a b c d e f g show ?thesis by blast
qed

theorem image_release_cases_witness:
  "image_release ex_constants ex_project ''amd64'' ''o'' ''r'' False = Inr ''r/o/foo:v1.2.3--amd64'' \<and>
   image_release ex_constants ex_project ''amd64'' ''o'' ''r'' True =
     Inr ''r/o/foo:v1.2.3--docs-amd64'' \<and>
   image_release ex_constants ex_project_dirty ''amd64'' ''o'' ''r'' False =
     Inl (ValueError ''The project repository is not in a release state'') \<and>
   image_release ex_constants ex_project_untagged ''amd64'' ''o'' ''r'' False =
     Inl (ValueError ''The project repository is not in a release state'') \<and>
   image_release ex_constants ex_legacy_plain ''amd64'' ''o'' ''r'' False =
     Inl (ValueError ''The project repository is not in a release state'')"
proof -
  have a: "''amd64'' \<in> set (canonical_architectures ex_constants)"
    by (simp add: ex_constants_def)
  have h: "head_version ex_project = ''v1.2.3!''"
    by (simp add: head_version_def ex_project_def ex_repository_def)
  have s: "re_sub_unsafe ''v1.2.3!'' = ''v1.2.3-''"
    by (simp add: re_sub_unsafe_def is_word_char_def code_def)
  have r1: "\<exists>r. attr_repository ex_project = Some r \<and>
              repo_index_nmodified r + repo_index_nadded r = 0 \<and> repo_head_version r \<noteq> ''ND''"
    by (simp add: ex_project_def ex_repository_def)
  have r2: "\<not> (\<exists>r. attr_repository ex_project_dirty = Some r \<and>
              repo_index_nmodified r + repo_index_nadded r = 0 \<and> repo_head_version r \<noteq> ''ND'')"
    by (simp add: ex_project_dirty_def ex_project_def ex_repository_def)
  have r3: "\<not> (\<exists>r. attr_repository ex_project_untagged = Some r \<and>
              repo_index_nmodified r + repo_index_nadded r = 0 \<and> repo_head_version r \<noteq> ''ND'')"
    by (simp add: ex_project_untagged_def ex_project_def ex_repository_def)
  have r4: "\<not> (\<exists>r. attr_repository ex_legacy_plain = Some r \<and>
              repo_index_nmodified r + repo_index_nadded r = 0 \<and> repo_head_version r \<noteq> ''ND'')"
    by (simp add: ex_legacy_plain_def ex_legacy_def)
  have 1: "image_release ex_constants ex_project ''amd64'' ''o'' ''r'' False =
             Inr ''r/o/foo:v1.2.3--amd64''"
    using image_release_cases[of ex_project ex_constants "''amd64''" "''o''" "''r''" False]
      a r1 h s ex_project_name by simp
  have 2: "image_release ex_constants ex_project ''amd64'' ''o'' ''r'' True =
             Inr ''r/o/foo:v1.2.3--docs-amd64''"
    using image_release_cases[of ex_project ex_constants "''amd64''" "''o''" "''r''" True]
      a r1 h s ex_project_name by simp
  have 3: "image_release ex_constants ex_project_dirty ''amd64'' ''o'' ''r'' False =
     Inl (ValueError ''The project repository is not in a release state'')"
    using image_release_cases[of ex_project_dirty ex_constants "''amd64''" "''o''" "''r''" False]
      r2 by blast
  have 4: "image_release ex_constants ex_project_untagged ''amd64'' ''o'' ''r'' False =
     Inl (ValueError ''The project repository is not in a release state'')"
    using image_release_cases[of ex_project_untagged ex_constants "''amd64''" "''o''" "''r''" False]
      r3 by blast
  have 5: "image_release ex_constants ex_legacy_plain ''amd64'' ''o'' ''r'' False =
     Inl (ValueError ''The project repository is not in a release state'')"
    using image_release_cases[of ex_legacy_plain ex_constants "''amd64''" "''o''" "''r''" False]
      r4 by blast
  from 1 2 3 4 5 show ?thesis by blast
qed

section \<open>Validation of the legacy descriptor\<close>






















section \<open>Paths under the project\<close>

lemma split_not_Nil: "split sep s \<noteq> []"
  by (induction s) (auto split: list.splits)

lemma split_no_sep: "sep \<notin> set s \<Longrightarrow> split sep s = [s]"
  by (induction s) auto

lemma split_append_sep: "split sep (a @ sep # b) = split sep a @ split sep b"
proof (induction a)
  case Nil
  then show ?case by simp
next
  case (Cons c a)
  then show ?case
    using split_not_Nil[of sep a] by (cases "split sep a") auto
qed

lemma sep_join_Cons: "cs \<noteq> [] \<Longrightarrow> sep_join (c # cs) = c @ ''/'' @ sep_join cs"
  by (cases cs) auto

lemma sep_join_append:
  "cs \<noteq> [] \<Longrightarrow> rs \<noteq> [] \<Longrightarrow> sep_join (cs @ rs) = sep_join cs @ ''/'' @ sep_join rs"
proof (induction cs rule: sep_join.induct)
  case 1
  then show ?case by simp
next
  case (2 c)
  then show ?case by (simp add: sep_join_Cons)
next
  case (3 c v va)
  then show ?case by simp
qed

lemma split_sep_join:
  "cs \<noteq> [] \<Longrightarrow> \<forall>c \<in> set cs. CHR ''/'' \<notin> set c \<Longrightarrow> split (CHR ''/'') (sep_join cs) = cs"
proof (induction cs rule: sep_join.induct)
  case 1
  then show ?case by simp
next
  case (2 c)
  then show ?case by (simp add: split_no_sep)
next
  case (3 c v va)
  have "split (CHR ''/'') (c @ CHR ''/'' # sep_join (v # va)) =
          split (CHR ''/'') c @ split (CHR ''/'') (sep_join (v # va))"
    by (rule split_append_sep)
  with 3 show ?case by (simp add: split_no_sep)
qed

lemma norm_comps_clean:
  "\<forall>x \<in> set xs. clean_component x \<Longrightarrow> norm_comps b acc xs = rev acc @ xs"
  by (induction xs arbitrary: acc) (auto simp add: clean_component_def)

lemma sep_join_not_Nil: "cs \<noteq> [] \<Longrightarrow> \<forall>c \<in> set cs. clean_component c \<Longrightarrow> sep_join cs \<noteq> []"
  by (cases cs rule: sep_join.cases) (auto simp add: clean_component_def)

lemma clean_hd: "clean_component c \<Longrightarrow> hd c \<noteq> CHR ''/''"
  by (cases c) (auto simp add: clean_component_def)

lemma clean_last: "clean_component c \<Longrightarrow> last c \<noteq> CHR ''/''"
  by (cases c rule: rev_cases) (auto simp add: clean_component_def)

lemma sep_join_hd:
  "cs \<noteq> [] \<Longrightarrow> \<forall>c \<in> set cs. clean_component c \<Longrightarrow>
   sep_join cs \<noteq> [] \<and> hd (sep_join cs) \<noteq> CHR ''/''"
proof (cases cs rule: sep_join.cases)
  case 1
  assume "cs \<noteq> []"
  with 1 show ?thesis by simp
next
  case (2 c)
  assume "\<forall>c \<in> set cs. clean_component c"
  with 2 show ?thesis using clean_hd[of c] by (simp add: clean_component_def)
next
  case (3 c v va)
  assume "\<forall>c \<in> set cs. clean_component c"
  with 3 show ?thesis using clean_hd[of c] by (simp add: clean_component_def hd_append)
qed

lemma sep_join_last:
  "cs \<noteq> [] \<Longrightarrow> \<forall>c \<in> set cs. clean_component c \<Longrightarrow> last (sep_join cs) \<noteq> CHR ''/''"
proof (induction cs rule: sep_join.induct)
  case 1
  then show ?case by simp
next
  case (2 c)
  then show ?case using clean_last[of c] by simp
next
  case (3 c v va)
  have "sep_join (v # va) \<noteq> []"
    by (rule sep_join_not_Nil) (use 3 in auto)
  then show ?case using 3 by simp
qed

lemma normpath_clean:
  assumes "cs \<noteq> []" and "\<forall>c \<in> set cs. clean_component c"
  shows "normpath (''/'' @ sep_join cs) = ''/'' @ sep_join cs"
proof -
  from sep_join_hd[OF assms] obtain x xs where j: "sep_join cs = x # xs" and x: "x \<noteq> CHR ''/''"
    by (cases "sep_join cs") auto
  have no_sep: "\<forall>c \<in> set cs. CHR ''/'' \<notin> set c" using assms(2) by (simp add: clean_component_def)
  have sp: "split (CHR ''/'') (''/'' @ sep_join cs) = [] # cs"
    using split_sep_join[OF assms(1) no_sep] by simp
  have nc: "norm_comps True [] ([] # cs) = cs"
    using norm_comps_clean[OF assms(2), of True "[]"] by simp
  show ?thesis
    unfolding normpath_def sp
    using x nc by (simp add: j startswith_def Let_def)
qed

lemma abspath_clean:
  assumes "cs \<noteq> []" and "\<forall>c \<in> set cs. clean_component c"
  shows "abspath cwd (''/'' @ sep_join cs) = ''/'' @ sep_join cs"
  using normpath_clean[OF assms] by (simp add: abspath_def startswith_def)

lemma components_clean:
  assumes "cs \<noteq> []" and "\<forall>c \<in> set cs. clean_component c"
  shows "filter (\<lambda>x. x \<noteq> []) (split (CHR ''/'') (''/'' @ sep_join cs)) = cs"
proof -
  have no_sep: "\<forall>c \<in> set cs. CHR ''/'' \<notin> set c" using assms(2) by (simp add: clean_component_def)
  have ne: "\<forall>c \<in> set cs. c \<noteq> []" using assms(2) by (simp add: clean_component_def)
  have "filter (\<lambda>x. x \<noteq> []) cs = cs" using ne by (simp add: filter_id_conv)
  then show ?thesis using split_sep_join[OF assms(1) no_sep] by simp
qed

lemma commonprefix_append: "commonprefix cs (cs @ rs) = cs"
  by (induction cs) auto

lemma foldl_path_join:
  "xs \<noteq> [] \<Longrightarrow> \<forall>c \<in> set (xs @ rs). clean_component c \<Longrightarrow>
   foldl path_join (sep_join xs) rs = sep_join (xs @ rs)"
proof (induction rs arbitrary: xs)
  case Nil
  then show ?case by simp
next
  case (Cons r rs)
  have xs: "\<forall>c \<in> set xs. clean_component c" using Cons.prems by simp
  have r: "clean_component r" using Cons.prems by simp
  from sep_join_hd[OF Cons.prems(1) xs] have ne: "sep_join xs \<noteq> []" by simp
  from sep_join_last[OF Cons.prems(1) xs] have l: "last (sep_join xs) \<noteq> CHR ''/''" .
  have e: "\<not> endswith (sep_join xs) ''/''"
    using ne l by (cases "sep_join xs" rule: rev_cases) (auto simp add: endswith_def)
  have s: "\<not> startswith r ''/''"
    using r by (cases r) (auto simp add: startswith_def clean_component_def)
  have "path_join (sep_join xs) r = sep_join (xs @ [r])"
    using e s ne Cons.prems(1) by (simp add: path_join_def sep_join_append)
  moreover have "foldl path_join (sep_join (xs @ [r])) rs = sep_join ((xs @ [r]) @ rs)"
    by (rule Cons.IH) (use Cons.prems in auto)
  ultimately show ?case by simp
qed

lemma relpath_under:
  assumes cs: "cs \<noteq> []" "\<forall>c \<in> set cs. clean_component c"
    and rs: "rs \<noteq> []" "\<forall>c \<in> set rs. clean_component c"
  shows "relpath cwd ((''/'' @ sep_join cs) @ ''/'' @ sep_join rs) (''/'' @ sep_join cs) =
           Some (sep_join rs)"
proof -
  have all: "\<forall>c \<in> set (cs @ rs). clean_component c" using cs rs by auto
  have ne: "cs @ rs \<noteq> []" using cs by simp
  have m: "(''/'' @ sep_join cs) @ ''/'' @ sep_join rs = ''/'' @ sep_join (cs @ rs)"
    using sep_join_append[OF cs(1) rs(1)] by simp
  have a1: "abspath cwd (''/'' @ sep_join cs) = ''/'' @ sep_join cs"
    by (rule abspath_clean[OF cs])
  have a2: "abspath cwd (''/'' @ sep_join (cs @ rs)) = ''/'' @ sep_join (cs @ rs)"
    by (rule abspath_clean[OF ne all])
  have l1: "filter (\<lambda>x. x \<noteq> []) (split (CHR ''/'') (''/'' @ sep_join cs)) = cs"
    by (rule components_clean[OF cs])
  have l2: "filter (\<lambda>x. x \<noteq> []) (split (CHR ''/'') (''/'' @ sep_join (cs @ rs))) = cs @ rs"
    by (rule components_clean[OF ne all])
  obtain r rs' where rr: "rs = r # rs'" using rs(1) by (cases rs) auto
  have f: "foldl path_join (sep_join [r]) rs' = sep_join ([r] @ rs')"
    by (rule foldl_path_join) (use rs rr in auto)
  show ?thesis
    unfolding m relpath_def a1 a2 l1 l2
    using f by (simp add: commonprefix_append rr Let_def)
qed

lemma relpath_Some: "m \<noteq> [] \<Longrightarrow> \<exists>rel. relpath cwd m start = Some rel"
  by (simp add: relpath_def Let_def split: list.splits)

lemma rewrite_prefix_total:
  "\<forall>m \<in> set ms. m \<noteq> [] \<Longrightarrow> \<exists>ls. rewrite_prefix cwd root start ms = Inr ls"
proof (induction ms)
  case Nil
  then show ?case by simp
next
  case (Cons m ms)
  then obtain ls where ls: "rewrite_prefix cwd root start ms = Inr ls" by auto
  from Cons.prems obtain rel where "relpath cwd m start = Some rel"
    using relpath_Some[of m cwd start] by auto
  with ls show ?case by simp
qed

lemma rewrite_prefix_Inr:
  "rewrite_prefix cwd root start ms = Inr ls \<Longrightarrow>
   length ls = length ms \<and>
   (\<forall>i < length ms. \<exists>rel. relpath cwd (ms ! i) start = Some rel \<and> ls ! i = path_join root rel)"
proof (induction ms arbitrary: ls)
  case Nil
  then show ?case by simp
next
  case (Cons m ms)
  from Cons.prems obtain rel rest where
    rel: "relpath cwd m start = Some rel" and
    rest: "rewrite_prefix cwd root start ms = Inr rest" and
    ls: "ls = path_join root rel # rest"
    by (auto split: option.splits sum.splits)
  from Cons.IH[OF rest] have ih: "length rest = length ms"
    "\<forall>i < length ms. \<exists>rel. relpath cwd (ms ! i) start = Some rel \<and> rest ! i = path_join root rel"
    by auto
  show ?case
  proof (intro conjI allI impI)
    show "length ls = length (m # ms)" using ih(1) ls by simp
  next
    fix i assume "i < length (m # ms)"
    then show "\<exists>rel. relpath cwd ((m # ms) ! i) start = Some rel \<and> ls ! i = path_join root rel"
      using rel ih(2) ls by (cases i) auto
  qed
qed

lemma rewrite_prefix_empty:
  "[] \<in> set ms \<Longrightarrow> \<exists>e. rewrite_prefix cwd root start ms = Inl e"
  by (induction ms) (auto simp add: relpath_def split: option.splits sum.splits)

lemma rewrite_prefix_under:
  assumes cs: "cs \<noteq> []" "\<forall>c \<in> set cs. clean_component c"
    and rss: "\<forall>rs \<in> set rss. rs \<noteq> [] \<and> (\<forall>c \<in> set rs. clean_component c)"
  shows "rewrite_prefix cwd root (''/'' @ sep_join cs)
           (map (\<lambda>rs. (''/'' @ sep_join cs) @ ''/'' @ sep_join rs) rss) =
         Inr (map (\<lambda>rs. path_join root (sep_join rs)) rss)"
  using rss
proof (induction rss)
  case Nil
  then show ?case by simp
next
  case (Cons rs rss)
  have "relpath cwd ((''/'' @ sep_join cs) @ ''/'' @ sep_join rs) (''/'' @ sep_join cs) =
           Some (sep_join rs)"
    by (rule relpath_under[OF cs]) (use Cons.prems in auto)
  moreover have "rewrite_prefix cwd root (''/'' @ sep_join cs)
           (map (\<lambda>rs. (''/'' @ sep_join cs) @ ''/'' @ sep_join rs) rss) =
         Inr (map (\<lambda>rs. path_join root (sep_join rs)) rss)"
    by (rule Cons.IH) (use Cons.prems in auto)
  ultimately show ?case by simp
qed

lemma rstrip_sep_last: "rstrip_sep s \<noteq> [] \<Longrightarrow> last (rstrip_sep s) \<noteq> CHR ''/''"
proof -
  assume ne: "rstrip_sep s \<noteq> []"
  then have d: "dropWhile (\<lambda>c. c = CHR ''/'') (rev s) \<noteq> []" by (simp add: rstrip_sep_def)
  then have "hd (dropWhile (\<lambda>c. c = CHR ''/'') (rev s)) \<noteq> CHR ''/''"
    using hd_dropWhile[of "\<lambda>c. c = CHR ''/''" "rev s"] by simp
  then show ?thesis using d by (simp add: rstrip_sep_def last_rev)
qed

lemma path_join_under:
  assumes "root \<noteq> []" and "last root \<noteq> CHR ''/''"
    and "rs \<noteq> []" and "\<forall>c \<in> set rs. clean_component c"
  shows "path_join root (sep_join rs) = root @ ''/'' @ sep_join rs"
proof -
  from sep_join_hd[OF assms(3,4)] have "\<not> startswith (sep_join rs) ''/''"
    by (cases "sep_join rs") (auto simp add: startswith_def)
  moreover have "\<not> endswith root ''/''"
    using assms(1,2) by (cases root rule: rev_cases) (auto simp add: endswith_def)
  ultimately show ?thesis using assms(1) by (simp add: path_join_def)
qed

lemma filter_parts_clean:
  "\<forall>c \<in> set rs. clean_component c \<Longrightarrow> filter (\<lambda>x. x \<noteq> [] \<and> x \<noteq> ''.'') rs = rs"
  by (simp add: filter_id_conv clean_component_def)

lemma path_name_sep_join:
  assumes "rs \<noteq> []" and "\<forall>c \<in> set rs. clean_component c"
  shows "path_name (sep_join rs) = last rs"
proof -
  have "split (CHR ''/'') (sep_join rs) = rs"
    by (rule split_sep_join) (use assms in \<open>auto simp add: clean_component_def\<close>)
  then show ?thesis
    using assms filter_parts_clean[OF assms(2)]
    by (cases rs rule: rev_cases) (auto simp add: path_name_def)
qed

lemma path_name_under:
  assumes "rs \<noteq> []" and "\<forall>c \<in> set rs. clean_component c"
  shows "path_name (root @ ''/'' @ sep_join rs) = last rs"
proof -
  have s: "split (CHR ''/'') (sep_join rs) = rs"
    by (rule split_sep_join) (use assms in \<open>auto simp add: clean_component_def\<close>)
  have "split (CHR ''/'') (root @ CHR ''/'' # sep_join rs) = split (CHR ''/'') root @ rs"
    using split_append_sep[of "CHR ''/''" root "sep_join rs"] s by simp
  then show ?thesis
    using assms filter_parts_clean[OF assms(2)]
    by (cases rs rule: rev_cases) (auto simp add: path_name_def)
qed

lemma stem_path_name: "path_name a = path_name b \<Longrightarrow> stem a = stem b"
  by (simp add: stem_def)

lemma path_name_clean: "clean_component c \<Longrightarrow> path_name c = c"
  using path_name_sep_join[of "[c]"] by simp

lemma stem_under:
  assumes "rs \<noteq> []" and "\<forall>c \<in> set rs. clean_component c" and "root = [] \<or> last root \<noteq> CHR ''/''"
  shows "stem (path_join root (sep_join rs)) = stem (last rs)"
proof -
  have l: "clean_component (last rs)" using assms(1,2) by simp
  have "path_name (path_join root (sep_join rs)) = last rs"
  proof (cases "root = []")
    case True
    from sep_join_hd[OF assms(1,2)] have "\<not> startswith (sep_join rs) ''/''"
      by (cases "sep_join rs") (auto simp add: startswith_def)
    then show ?thesis using True path_name_sep_join[OF assms(1,2)] by (simp add: path_join_def)
  next
    case False
    then show ?thesis
      using path_join_under[OF False _ assms(1,2)] assms(3) path_name_under[OF assms(1,2)]
      by simp
  qed
  then show ?thesis using path_name_clean[OF l] stem_path_name by simp
qed

lemma effective_root_last:
  "effective_root fs p root = [] \<or> last (effective_root fs p root) \<noteq> CHR ''/''"
  using rstrip_sep_last by (auto simp add: effective_root_def)

lemma ex_project_fields:
  "type ex_project = ''template-ros''" "type_version ex_project = ''3''"
  "path ex_project = ''/ws/proj''"
  by (simp_all add: type_def type_version_def path_def ex_project_def ex_layers_def)

lemma ex_templated_fields:
  "type (ex_templated t tv) = t" "type_version (ex_templated t tv) = tv"
  "path (ex_templated t tv) = ''/ws/proj''" "name (ex_templated t tv) = ''foo''"
  by (simp_all add: type_def type_version_def path_def name_def ex_templated_def ex_project_def
      ex_layers_def lower_eval)

lemma ex_roots:
  "effective_root ex_fs ex_project None = ''/ws/proj''"
  "effective_root ex_fs ex_project (Some ''/mnt/remote/'') = ''/mnt/remote''"
  "effective_root ex_fs (ex_templated t tv) None = ''/ws/proj''"
  by (simp_all add: effective_root_def ex_project_fields ex_templated_fields abspath_def
      normpath_def startswith_def rstrip_sep_def ex_fs_def)

lemma ex_dirs:
  "filter (path_isdir ex_fs) (glob ex_fs (path_join ''/ws/proj'' ''packages/*'')) =
     [''/ws/proj/packages/core'', ''/ws/proj/packages/my.pkg'']"
  "filter (path_isdir ex_fs) (glob ex_fs (path_join ''/ws/proj'' ''assets/*'')) = []"
  by (simp_all add: join_eval ex_fs_def)

lemma ex_relpaths:
  "relpath ''/home/user'' ''/ws/proj/packages/core'' ''/ws/proj'' = Some ''packages/core''"
  "relpath ''/home/user'' ''/ws/proj/packages/my.pkg'' ''/ws/proj'' = Some ''packages/my.pkg''"
  by (simp_all add: relpath_def abspath_def normpath_def join_eval)

lemma ex_stems:
  "stem ''/ws/proj/packages/core'' = ''core''" "stem ''/ws/proj/packages/my.pkg'' = ''my''"
  "stem ''core'' = ''core''" "stem ''my.pkg'' = ''my''"
  "path_name ''/ws/proj/packages/my.pkg'' = ''my.pkg''"
  by (simp_all add: stem_def path_name_def)

text \<open>
  The claim C1 has the destination of a matched directory end in the final path segment
  of the match. The code appends \<open>Path(loc).stem\<close>, the final segment without its last
  suffix: the directory \<open>packages/my.pkg\<close> of the example project is paired with the
  destination \<open>/code/src/foo/my\<close>, not \<open>/code/src/foo/my.pkg\<close>.
\<close>

theorem code_paths_stem_counterexample:
  "code_paths ex_constants ex_fs ex_project None =
     Inr ([''/ws/proj/packages/core'', ''/ws/proj/packages/my.pkg''],
          [''/code/src/foo/core'', ''/code/src/foo/my'']) \<and>
   spec_destination ''/code/src/foo'' ''/ws/proj/packages/my.pkg'' = ''/code/src/foo/my.pkg'' \<and>
   ''/code/src/foo/my'' \<noteq> spec_destination ''/code/src/foo'' ''/ws/proj/packages/my.pkg''"
proof -
  have cwd: "getcwd ex_fs = ''/home/user''" by (simp add: ex_fs_def)
  have t: "TEMPLATE_TO_SRC ex_constants ''template-ros'' =
             Some [''3'' \<mapsto> (\<lambda>repo. (''packages/*'', ''/code/src/'' @ repo))]"
    by (simp add: ex_constants_def)
  have 1: "code_paths ex_constants ex_fs ex_project None =
     Inr ([''/ws/proj/packages/core'', ''/ws/proj/packages/my.pkg''],
          [''/code/src/foo/core'', ''/code/src/foo/my''])"
    by (simp add: code_paths_def template_paths_def ex_project_fields ex_project_name t
        ex_roots ex_dirs cwd ex_relpaths endswith_def Let_def)
      (simp add: join_eval ex_stems)
  have 2: "spec_destination ''/code/src/foo'' ''/ws/proj/packages/my.pkg'' =
             ''/code/src/foo/my.pkg''"
    by (simp add: spec_destination_def ex_stems join_eval)
  from 1 2 show ?thesis by simp
qed

text \<open>
  C1, amended. \<open>code_paths\<close> and \<open>assets_paths\<close> are the same operation on their two tables.
  For a project with a mapping entry whose local spec does not end in \<open>*\<close>, the result is
  the one pair of the effective root joined with the local spec, and the destination. For
  a local spec that ends in \<open>*\<close>, the pattern is the project path joined with the local
  spec (never the override root); the matches that are no directories are dropped; the
  call returns unless a match is the empty string; and what it returns are, in the order
  of the matches, as many locals as there are matched directories, each the effective
  root joined with the path of the match relative to the project path, and as many
  destinations, each the fixed destination joined with the stem of its local (its final
  segment without the last suffix). Where the project path is a normalised absolute path,
  every matched directory lies under it and the effective root is not empty, the locals
  are the matches with the project path replaced by the effective root, and the
  destinations are the fixed destination joined with the stem of the final segment of
  each match.
\<close>

theorem template_paths_pairs:
  assumes "table (type p) = Some versions"
    and "versions (type_version p) = Some entry"
    and "entry (name p) = (local, destination)"
  shows
   "code_paths K fs p root = template_paths (TEMPLATE_TO_SRC K) fs p root \<and>
    assets_paths K fs p root = template_paths (TEMPLATE_TO_ASSETS K) fs p root \<and>
    (\<not> endswith local ''*'' \<longrightarrow>
       template_paths table fs p root =
         Inr ([path_join (effective_root fs p root) local], [destination])) \<and>
    (endswith local ''*'' \<longrightarrow>
       ((\<forall>m \<in> set (filter (path_isdir fs) (glob fs (path_join (path p) local))). m \<noteq> []) \<longrightarrow>
          (\<exists>locals destinations.
             template_paths table fs p root = Inr (locals, destinations))) \<and>
       (\<forall>locals destinations.
          template_paths table fs p root = Inr (locals, destinations) \<longrightarrow>
            length locals = length (filter (path_isdir fs) (glob fs (path_join (path p) local))) \<and>
            destinations = map (\<lambda>loc. path_join destination (stem loc)) locals \<and>
            (\<forall>i < length locals.
               \<exists>rel. relpath (getcwd fs)
                        (filter (path_isdir fs) (glob fs (path_join (path p) local)) ! i)
                        (path p) = Some rel \<and>
                     locals ! i = path_join (effective_root fs p root) rel)) \<and>
       (path p = ''/'' @ sep_join cs \<and> cs \<noteq> [] \<and> (\<forall>c \<in> set cs. clean_component c) \<and>
        filter (path_isdir fs) (glob fs (path_join (path p) local)) =
          map (\<lambda>rs. path p @ ''/'' @ sep_join rs) rss \<and>
        (\<forall>rs \<in> set rss. rs \<noteq> [] \<and> (\<forall>c \<in> set rs. clean_component c)) \<and>
        effective_root fs p root \<noteq> [] \<longrightarrow>
          template_paths table fs p root =
            Inr (map (\<lambda>rs. effective_root fs p root @ ''/'' @ sep_join rs) rss,
                 map (\<lambda>rs. path_join destination (stem (last rs))) rss)))"
proof -
  let ?dirs = "filter (path_isdir fs) (glob fs (path_join (path p) local))"
  let ?root = "effective_root fs p root"
  have tp: "template_paths table fs p root =
     (if endswith local ''*'' then
        (case rewrite_prefix (getcwd fs) ?root (path p) ?dirs of
           Inl e \<Rightarrow> Inl e
         | Inr locals \<Rightarrow> Inr (locals, map (\<lambda>loc. path_join destination (stem loc)) locals))
      else Inr ([path_join ?root local], [destination]))"
    using assms by (simp add: template_paths_def Let_def)
  have a: "\<not> endswith local ''*'' \<longrightarrow>
       template_paths table fs p root = Inr ([path_join ?root local], [destination])"
    by (simp add: tp)
  have b: "endswith local ''*'' \<longrightarrow> (\<forall>m \<in> set ?dirs. m \<noteq> []) \<longrightarrow>
          (\<exists>locals destinations. template_paths table fs p root = Inr (locals, destinations))"
  proof (intro impI)
    assume e: "endswith local ''*''" and ne: "\<forall>m \<in> set ?dirs. m \<noteq> []"
    from rewrite_prefix_total[OF ne] obtain ls where
      "rewrite_prefix (getcwd fs) ?root (path p) ?dirs = Inr ls" by blast
    then show "\<exists>locals destinations. template_paths table fs p root = Inr (locals, destinations)"
      using e by (simp add: tp)
  qed
  have c: "endswith local ''*'' \<longrightarrow> (\<forall>locals destinations.
          template_paths table fs p root = Inr (locals, destinations) \<longrightarrow>
            length locals = length ?dirs \<and>
            destinations = map (\<lambda>loc. path_join destination (stem loc)) locals \<and>
            (\<forall>i < length locals.
               \<exists>rel. relpath (getcwd fs) (?dirs ! i) (path p) = Some rel \<and>
                     locals ! i = path_join ?root rel))"
  proof (intro impI allI)
    fix locals destinations
    assume e: "endswith local ''*''"
      and r: "template_paths table fs p root = Inr (locals, destinations)"
    from r e have rp: "rewrite_prefix (getcwd fs) ?root (path p) ?dirs = Inr locals"
      and d: "destinations = map (\<lambda>loc. path_join destination (stem loc)) locals"
      by (auto simp add: tp split: sum.splits)
    from rewrite_prefix_Inr[OF rp] d
    show "length locals = length ?dirs \<and>
            destinations = map (\<lambda>loc. path_join destination (stem loc)) locals \<and>
            (\<forall>i < length locals.
               \<exists>rel. relpath (getcwd fs) (?dirs ! i) (path p) = Some rel \<and>
                     locals ! i = path_join ?root rel)"
      by simp
  qed
  have d: "endswith local ''*'' \<longrightarrow>
       (path p = ''/'' @ sep_join cs \<and> cs \<noteq> [] \<and> (\<forall>c \<in> set cs. clean_component c) \<and>
        ?dirs = map (\<lambda>rs. path p @ ''/'' @ sep_join rs) rss \<and>
        (\<forall>rs \<in> set rss. rs \<noteq> [] \<and> (\<forall>c \<in> set rs. clean_component c)) \<and>
        ?root \<noteq> [] \<longrightarrow>
          template_paths table fs p root =
            Inr (map (\<lambda>rs. ?root @ ''/'' @ sep_join rs) rss,
                 map (\<lambda>rs. path_join destination (stem (last rs))) rss))"
  proof (intro impI, elim conjE)
    assume e: "endswith local ''*''"
      and pth: "path p = ''/'' @ sep_join cs" and cs: "cs \<noteq> []" "\<forall>c \<in> set cs. clean_component c"
      and dirs: "?dirs = map (\<lambda>rs. path p @ ''/'' @ sep_join rs) rss"
      and rss: "\<forall>rs \<in> set rss. rs \<noteq> [] \<and> (\<forall>c \<in> set rs. clean_component c)"
      and ne: "?root \<noteq> []"
    have l: "last ?root \<noteq> CHR ''/''" using effective_root_last[of fs p root] ne by simp
    have rp: "rewrite_prefix (getcwd fs) ?root (path p) ?dirs =
                Inr (map (\<lambda>rs. path_join ?root (sep_join rs)) rss)"
      using rewrite_prefix_under[OF cs rss, of "getcwd fs" ?root] dirs pth by simp
    have j: "map (\<lambda>rs. path_join ?root (sep_join rs)) rss =
             map (\<lambda>rs. ?root @ ''/'' @ sep_join rs) rss"
      using rss path_join_under[OF ne l] by simp
    have s: "map (\<lambda>loc. path_join destination (stem loc))
               (map (\<lambda>rs. path_join ?root (sep_join rs)) rss) =
             map (\<lambda>rs. path_join destination (stem (last rs))) rss"
      using rss stem_under[of _ ?root] l by simp
    show "template_paths table fs p root =
            Inr (map (\<lambda>rs. ?root @ ''/'' @ sep_join rs) rss,
                 map (\<lambda>rs. path_join destination (stem (last rs))) rss)"
      using e rp s j by (simp add: tp)
  qed
  have k: "code_paths K fs p root = template_paths (TEMPLATE_TO_SRC K) fs p root \<and>
    assets_paths K fs p root = template_paths (TEMPLATE_TO_ASSETS K) fs p root"
    by (simp add: code_paths_def assets_paths_def)
  from a b c d k show ?thesis by blast
qed

theorem template_paths_pairs_witness:
  "code_paths ex_constants ex_fs ex_project (Some ''/mnt/remote/'') =
     Inr ([''/mnt/remote/packages/core'', ''/mnt/remote/packages/my.pkg''],
          [''/code/src/foo/core'', ''/code/src/foo/my'']) \<and>
   assets_paths ex_constants ex_fs ex_project None = Inr ([], []) \<and>
   code_paths ex_constants ex_fs (ex_templated ''template-basic'' ''3'') None =
     Inr ([''/ws/proj/packages''], [''/code/foo''])"
proof -
  have clean: "clean_component ''ws''" "clean_component ''proj''" "clean_component ''packages''"
    "clean_component ''core''" "clean_component ''my.pkg''"
    by (simp_all add: clean_component_def)
  have t: "TEMPLATE_TO_SRC ex_constants ''template-ros'' =
             Some [''3'' \<mapsto> (\<lambda>repo. (''packages/*'', ''/code/src/'' @ repo))]"
    "TEMPLATE_TO_ASSETS ex_constants ''template-ros'' =
             Some [''3'' \<mapsto> (\<lambda>repo. (''assets/*'', ''/data/'' @ repo))]"
    "TEMPLATE_TO_SRC ex_constants ''template-basic'' =
             Some [''3'' \<mapsto> (\<lambda>repo. (''packages'', ''/code/'' @ repo))]"
    by (simp_all add: ex_constants_def)
  have 1: "code_paths ex_constants ex_fs ex_project (Some ''/mnt/remote/'') =
     Inr ([''/mnt/remote/packages/core'', ''/mnt/remote/packages/my.pkg''],
          [''/code/src/foo/core'', ''/code/src/foo/my''])"
    using template_paths_pairs[where table = "TEMPLATE_TO_SRC ex_constants" and p = ex_project and
        versions = "[''3'' \<mapsto> (\<lambda>repo. (''packages/*'', ''/code/src/'' @ repo))]" and
        entry = "\<lambda>repo. (''packages/*'', ''/code/src/'' @ repo)" and
        local = "''packages/*''" and destination = "''/code/src/foo''" and
        K = ex_constants and fs = ex_fs and root = "Some ''/mnt/remote/''" and
        cs = "[''ws'', ''proj'']" and
        rss = "[[''packages'', ''core''], [''packages'', ''my.pkg'']]"]
    by (simp add: ex_project_fields ex_project_name t ex_roots ex_dirs clean ex_stems endswith_def)
      (simp add: join_eval)
  have 2: "assets_paths ex_constants ex_fs ex_project None = Inr ([], [])"
    using template_paths_pairs[where table = "TEMPLATE_TO_ASSETS ex_constants" and
        p = ex_project and
        versions = "[''3'' \<mapsto> (\<lambda>repo. (''assets/*'', ''/data/'' @ repo))]" and
        entry = "\<lambda>repo. (''assets/*'', ''/data/'' @ repo)" and
        local = "''assets/*''" and destination = "''/data/foo''" and
        K = ex_constants and fs = ex_fs and root = None and
        cs = "[''ws'', ''proj'']" and rss = "[]"]
    by (simp add: ex_project_fields ex_project_name t ex_roots ex_dirs clean endswith_def)
  have 3: "code_paths ex_constants ex_fs (ex_templated ''template-basic'' ''3'') None =
     Inr ([''/ws/proj/packages''], [''/code/foo''])"
    using template_paths_pairs[where table = "TEMPLATE_TO_SRC ex_constants" and
        p = "ex_templated ''template-basic'' ''3''" and
        versions = "[''3'' \<mapsto> (\<lambda>repo. (''packages'', ''/code/'' @ repo))]" and
        entry = "\<lambda>repo. (''packages'', ''/code/'' @ repo)" and
        local = "''packages''" and destination = "''/code/foo''" and
        K = ex_constants and fs = ex_fs and root = None]
    by (simp add: ex_templated_fields t ex_roots endswith_def) (simp add: join_eval)
  from 1 2 3 show ?thesis by blast
qed

end
